theory Spec2Isabelle
  imports Complex_Main "HOL-Library.Word" "HOL-Library.Sublist"
begin

section \<open>JavaScript strings and values\<close>

text \<open>
  A JavaScript string is a sequence of UTF-16 code units; \<open>trim\<close>, the regular
  expressions of \<open>speakText\<close> (none has the \<open>u\<close> flag) and string comparison all work
  on code units. String literals of the source that are plain ASCII are written with
  \<open>ascii\<close>; the others are given by their code units.
\<close>

type_synonym jschar = "16 word"
type_synonym jstring = "jschar list"

definition ascii :: "string \<Rightarrow> jstring" where
  "ascii s = map of_char s"

text \<open>
  The values a parsed JSON body can hold, together with \<open>undefined\<close>, which reading a
  missing property yields. A number is kept as the 64 bits of its IEEE 754 double; an
  object is the list of its own properties.
\<close>

datatype jsval =
    JUndefined
  | JNull
  | JBool bool
  | JNum "64 word"
  | JStr jstring
  | JArr "jsval list"
  | JObj "(jstring \<times> jsval) list"

text \<open>What a \<open>catch\<close> clause of the source reads of a thrown error is its \<open>message\<close>.\<close>

datatype js_error = Error (message: jstring)

text \<open>
  Two conversions depend on the JavaScript engine and are taken as parameters: the text
  of the \<open>TypeError\<close> raised when a property (named by the second argument) of a value
  is read or called and cannot be, and \<open>String(v)\<close> of a value that is not a string.
\<close>

record engine =
  typeErrorMessage :: "jsval \<Rightarrow> jstring \<Rightarrow> jstring"
  stringOf :: "jsval \<Rightarrow> jstring"

definition ToString :: "engine \<Rightarrow> jsval \<Rightarrow> jstring" where
  "ToString eng v = (case v of JStr s \<Rightarrow> s | _ \<Rightarrow> stringOf eng v)"

text \<open>
  Truthiness, as \<open>||\<close> and \<open>if\<close> test it: \<open>undefined\<close>, \<open>null\<close>, \<open>false\<close>, the
  empty string, \<open>+0\<close>, \<open>-0\<close> and \<open>NaN\<close> are falsy.
\<close>

definition isZeroOrNaN :: "64 word \<Rightarrow> bool" where
  "isZeroOrNaN w \<longleftrightarrow>
     (let e = take_bit 11 (drop_bit 52 w); m = take_bit 52 w
      in (e = 0 \<and> m = 0) \<or> (e = 2047 \<and> m \<noteq> 0))"

fun truthy :: "jsval \<Rightarrow> bool" where
  "truthy JUndefined = False"
| "truthy JNull = False"
| "truthy (JBool b) = b"
| "truthy (JNum w) = (\<not> isZeroOrNaN w)"
| "truthy (JStr s) = (s \<noteq> [])"
| "truthy (JArr xs) = True"
| "truthy (JObj kvs) = True"

text \<open>
  The properties the source reads off a response body: \<open>.error\<close>, \<open>.message\<close>,
  \<open>.choices\<close>, \<open>[0]\<close> and \<open>.content\<close>. None of them is inherited from a prototype.
\<close>

datatype property = P_error | P_message | P_choices | P_0 | P_content

fun prop_name :: "property \<Rightarrow> jstring" where
  "prop_name P_error = ascii ''error''"
| "prop_name P_message = ascii ''message''"
| "prop_name P_choices = ascii ''choices''"
| "prop_name P_0 = ascii ''0''"
| "prop_name P_content = ascii ''content''"

text \<open>
  Reading a property: a \<open>TypeError\<close> on \<open>undefined\<close> and \<open>null\<close>; an own property of
  an object or \<open>undefined\<close>; \<open>[0]\<close> of an array or of a string is its first element;
  everything else is \<open>undefined\<close>.
\<close>

fun get_prop :: "engine \<Rightarrow> jsval \<Rightarrow> property \<Rightarrow> js_error + jsval" where
  "get_prop eng JUndefined p = Inl (Error (typeErrorMessage eng JUndefined (prop_name p)))"
| "get_prop eng JNull p = Inl (Error (typeErrorMessage eng JNull (prop_name p)))"
| "get_prop eng (JObj kvs) p =
     Inr (case map_of kvs (prop_name p) of None \<Rightarrow> JUndefined | Some v \<Rightarrow> v)"
| "get_prop eng (JArr xs) p =
     Inr (if p = P_0 then (case xs of [] \<Rightarrow> JUndefined | x # _ \<Rightarrow> x) else JUndefined)"
| "get_prop eng (JStr s) p =
     Inr (if p = P_0 then (case s of [] \<Rightarrow> JUndefined | c # _ \<Rightarrow> JStr [c]) else JUndefined)"
| "get_prop eng (JBool b) p = Inr JUndefined"
| "get_prop eng (JNum w) p = Inr JUndefined"

text \<open>\<open>String.prototype.trim\<close>: white space and line terminators of ECMAScript.\<close>

definition isWhiteSpace :: "jschar \<Rightarrow> bool" where
  "isWhiteSpace c \<longleftrightarrow>
     c \<in> {0x0009, 0x000A, 0x000B, 0x000C, 0x000D, 0x0020, 0x00A0, 0x1680,
          0x2028, 0x2029, 0x202F, 0x205F, 0x3000, 0xFEFF}
     \<or> (0x2000 \<le> c \<and> c \<le> 0x200A)"

definition trim :: "jstring \<Rightarrow> jstring" where
  "trim s = rev (dropWhile isWhiteSpace (rev (dropWhile isWhiteSpace s)))"


section \<open>The remote completion endpoint\<close>

text \<open>
  What the code observes of one \<open>fetch\<close>: the promise is rejected (network failure), or
  it resolves to a response with its \<open>ok\<close> flag, whose \<open>json()\<close> is rejected (the body
  is not JSON) or yields the parsed body.
\<close>

datatype body = NotJson jstring | Parsed jsval

datatype fetch_result = Rejected jstring | Response bool body

text \<open>
  Lines 215 to 221 of \<open>script.js\<close> (166 to 172 of the simple variant, the same text):
  what \<open>fetchGroqCompletion\<close> returns or throws once the fetch has settled.
\<close>

definition error_message_of :: "engine \<Rightarrow> jsval \<Rightarrow> js_error + jsval" where
  \<comment> \<open>\<open>err.error?.message\<close>\<close>
  "error_message_of eng err =
     (case get_prop eng err P_error of
        Inl e \<Rightarrow> Inl e
      | Inr x \<Rightarrow> if x = JUndefined \<or> x = JNull then Inr JUndefined
                 else get_prop eng x P_message)"

definition first_choice_content :: "engine \<Rightarrow> jsval \<Rightarrow> js_error + jsval" where
  \<comment> \<open>\<open>data.choices[0].message.content\<close>\<close>
  "first_choice_content eng data =
     (case get_prop eng data P_choices of
        Inl e \<Rightarrow> Inl e
      | Inr cs \<Rightarrow>
          (case get_prop eng cs P_0 of
             Inl e \<Rightarrow> Inl e
           | Inr c \<Rightarrow>
               (case get_prop eng c P_message of
                  Inl e \<Rightarrow> Inl e
                | Inr m \<Rightarrow> get_prop eng m P_content)))"

definition fetchGroqCompletion_receive :: "engine \<Rightarrow> fetch_result \<Rightarrow> js_error + jsval" where
  "fetchGroqCompletion_receive eng r =
     (case r of
        Rejected m \<Rightarrow> Inl (Error m)
      | Response ok b \<Rightarrow>
          if \<not> ok then
            (case b of
               NotJson m \<Rightarrow> Inl (Error m)
             | Parsed err \<Rightarrow>
                 (case error_message_of eng err of
                    Inl e \<Rightarrow> Inl e
                  | Inr m \<Rightarrow>
                      Inl (Error (ToString eng
                        (if truthy m then m else JStr (ascii ''API Request Failed''))))))
          else
            (case b of
               NotJson m \<Rightarrow> Inl (Error m)
             | Parsed data \<Rightarrow> first_choice_content eng data))"

section \<open>Speech: cleaning the text to narrate\<close>

text \<open>
  \<open>find_sub pat s\<close> splits \<open>s\<close> at the first occurrence of \<open>pat\<close> into what is before
  and what is after it.
\<close>

fun find_sub :: "'a list \<Rightarrow> 'a list \<Rightarrow> ('a list \<times> 'a list) option" where
  "find_sub pat [] = (if pat = [] then Some ([], []) else None)"
| "find_sub pat (c # cs) =
     (if prefix pat (c # cs) then Some ([], drop (length pat) (c # cs))
      else map_option (\<lambda>(b, r). (c # b, r)) (find_sub pat cs))"

lemma find_sub_Some: "find_sub pat s = Some (b, r) \<Longrightarrow> s = b @ pat @ r"
proof (induction s arbitrary: b r)
  case Nil
  then show ?case by (simp split: if_splits)
next
  case (Cons c cs)
  show ?case
  proof (cases "prefix pat (c # cs)")
    case True
    with Cons.prems have "b = []" and "r = drop (length pat) (c # cs)"
      by simp_all
    moreover from True have "c # cs = pat @ drop (length pat) (c # cs)"
      by (auto simp: prefix_def)
    ultimately show ?thesis by simp
  next
    case False
    with Cons.prems obtain b' where "find_sub pat cs = Some (b', r)" and "b = c # b'"
      by auto
    with Cons.IH show ?thesis by simp
  qed
qed

definition think_open :: jstring where
  "think_open = ascii ''<think>''"

definition think_close :: jstring where
  "think_close = ascii ''</think>''"

text \<open>
  \<open>text.replace(/<think>[\s\S]*?<\/think>/g, '')\<close>: the leftmost opening tag that has a
  closing tag after it is removed together with everything up to the nearest closing tag,
  and the search goes on behind that closing tag. When no closing tag follows the first
  opening tag, nothing more matches.
\<close>

function replace_think :: "jstring \<Rightarrow> jstring" where
  "replace_think s =
     (case find_sub think_open s of
        None \<Rightarrow> s
      | Some (pre, rest) \<Rightarrow>
          (case find_sub think_close rest of
             None \<Rightarrow> s
           | Some (inner, post) \<Rightarrow> pre @ replace_think post))"
  by pat_completeness auto
termination
proof (relation "measure length")
  show "wf (measure length)" by simp
next
  fix s :: jstring and x2 pre rest x2a inner post
  assume "find_sub think_open s = Some x2" "(pre, rest) = x2"
    "find_sub think_close rest = Some x2a" "(inner, post) = x2a"
  then have "s = pre @ think_open @ rest" "rest = inner @ think_close @ post"
    by (auto dest: find_sub_Some)
  then show "(post, s) \<in> measure length"
    by (simp add: think_open_def ascii_def)
qed

declare replace_think.simps [simp del]

text \<open>\<open>.replace(/[*#`]/g, '')\<close>\<close>

definition isMarkdownMark :: "jschar \<Rightarrow> bool" where
  "isMarkdownMark c \<longleftrightarrow> c = 0x2A \<or> c = 0x23 \<or> c = 0x60"

definition replace_marks :: "jstring \<Rightarrow> jstring" where
  "replace_marks s = filter (\<lambda>c. \<not> isMarkdownMark c) s"

text \<open>\<open>/[\u3040-\u309F\u30A0-\u30FF]/.test(cleanText)\<close>\<close>

definition isKana :: "jschar \<Rightarrow> bool" where
  "isKana c \<longleftrightarrow> (0x3040 \<le> c \<and> c \<le> 0x309F) \<or> (0x30A0 \<le> c \<and> c \<le> 0x30FF)"

definition hasJapanese :: "jstring \<Rightarrow> bool" where
  "hasJapanese s \<longleftrightarrow> list_ex isKana s"


section \<open>Data model\<close>

text \<open>
  The role of a message is one of the three strings the source passes to
  \<open>addMessageToHistory\<close> and \<open>renderMessage\<close>: \<open>'system'\<close>, \<open>'user'\<close> and
  \<open>'assistant'\<close>. The content is a JavaScript value, since what a completion returns
  need not be a string.
\<close>

datatype role = System | User | Assistant

record message =
  role :: role
  content :: jsval

text \<open>A \<open>fetch\<close> call: the bearer credential and the fields of the JSON body.\<close>

record request =
  req_url :: jstring
  req_authorization :: jstring
  req_model :: jstring
  req_messages :: "message list"
  req_temperature :: rat
  req_max_tokens :: nat

record utterance =
  utterance_text :: jstring
  utterance_lang :: jstring

text \<open>
  The page and the browser services the scripts act on: the form fields behind
  \<open>elements\<close>, the message \<open>div\<close>s appended to the chat container (each with the role
  that chose its class, and its text), whether a \<open>.welcome-message\<close> element is present,
  the number of loading indicators, the alerts shown, the two \<open>localStorage\<close> items, the
  utterances queued in \<open>window.speechSynthesis\<close>, the \<open>fetch\<close> calls issued so far and
  how many of them have not settled yet.
\<close>

record browser =
  apiKeyInput :: jstring
  userInput :: jstring
  modelSelect :: jstring
  modelOptions :: "(jstring \<times> jstring) list"
  chatContainer :: "(role \<times> jsval) list"
  welcomeMessage :: bool
  loading :: nat
  alerts :: "jstring list"
  stored_api_key :: "jstring option"
  stored_model :: "jstring option"
  speechQueue :: "utterance list"
  requests :: "request list"
  inflight :: nat

text \<open>The \<open>state\<close> object of the simple variant, on top of the page.\<close>

record simple_app = browser +
  apiKey :: jstring
  model :: jstring
  history :: "message list"
  autoSpeak :: bool
  isSpeaking :: bool

datatype phase = TOPIC_SETTING | HTF_DISCUSSION | FINAL_RESULT

text \<open>
  The \<open>state\<close> object of the phase variant has three more fields, and its page a topic
  display.
\<close>

record app = simple_app +
  phase :: phase
  topic :: jstring
  currentHTF :: jstring
  topicDisplay :: jstring

definition MODELS :: "(jstring \<times> jstring) list" where
  "MODELS =
     [(ascii ''llama-3.3-70b-versatile'', ascii ''Llama 3.3 70B''),
      (ascii ''llama-3.1-8b-instant'', ascii ''Llama 3.1 8B''),
      (ascii ''deepseek-r1-distill-llama-70b'', ascii ''DeepSeek R1 70B''),
      (ascii ''deepseek-r1-distill-qwen-32b'', ascii ''DeepSeek R1 32B'')]"

definition GROQ_API_URL :: jstring where
  "GROQ_API_URL = ascii ''https://api.groq.com/openai/v1/chat/completions''"

section \<open>Functions the two variants share\<close>

text \<open>
  These functions have the same text in both files; they are stated on any extension of
  \<open>simple_app\<close>, so that both variants use them.
\<close>

definition alert :: "jstring \<Rightarrow> 'a browser_scheme \<Rightarrow> 'a browser_scheme" where
  "alert m a = a\<lparr>alerts := alerts a @ [m]\<rparr>"

definition saveApiKey :: "'a simple_app_scheme \<Rightarrow> 'a simple_app_scheme" where
  "saveApiKey a =
     (let key = trim (apiKeyInput a)
      in if key \<noteq> [] then
           alert (ascii ''API Key saved locally.'')
             (a\<lparr>apiKey := key, stored_api_key := Some key\<rparr>)
         else alert (ascii ''Please enter a valid API Key.'') a)"

definition addMessageToHistory ::
  "role \<Rightarrow> jsval \<Rightarrow> 'a simple_app_scheme \<Rightarrow> 'a simple_app_scheme" where
  "addMessageToHistory r c a = a\<lparr>history := history a @ [\<lparr>role = r, content = c\<rparr>]\<rparr>"

definition renderMessage :: "role \<Rightarrow> jsval \<Rightarrow> 'a browser_scheme \<Rightarrow> 'a browser_scheme" where
  "renderMessage r c a = a\<lparr>welcomeMessage := False, chatContainer := chatContainer a @ [(r, c)]\<rparr>"

definition showLoading :: "'a browser_scheme \<Rightarrow> 'a browser_scheme" where
  "showLoading a = a\<lparr>loading := Suc (loading a)\<rparr>"

definition removeLoading :: "'a browser_scheme \<Rightarrow> 'a browser_scheme" where
  "removeLoading a = a\<lparr>loading := loading a - 1\<rparr>"

text \<open>The model change listener and the auto-speak listener of \<open>init\<close>.\<close>

definition modelChanged :: "jstring \<Rightarrow> 'a simple_app_scheme \<Rightarrow> 'a simple_app_scheme" where
  "modelChanged v a = a\<lparr>modelSelect := v, model := v, stored_model := Some v\<rparr>"

definition autoSpeakChanged :: "bool \<Rightarrow> 'a simple_app_scheme \<Rightarrow> 'a simple_app_scheme" where
  "autoSpeakChanged b a = a\<lparr>autoSpeak := b\<rparr>"

text \<open>
  The start of \<open>fetchGroqCompletion\<close>, up to its first \<open>await\<close>: the request leaves.
\<close>

definition send_request :: "request \<Rightarrow> 'a browser_scheme \<Rightarrow> 'a browser_scheme" where
  "send_request q a = a\<lparr>requests := requests a @ [q], inflight := Suc (inflight a)\<rparr>"

text \<open>
  The events of a session: typing into a field, the listeners registered by \<open>init\<close>
  (\<open>Send\<close> stands for the send button and for Enter in the input, \<open>ClickSaveKey\<close> also
  for Enter in the key field of the simple variant), the speaker button of the \<open>n\<close>-th
  rendered message, the settling of a pending \<open>fetch\<close>, and the callbacks of the narration
  engine. A handler runs to completion or to its \<open>await\<close> before the next event is
  taken, so the states of a session are those between two events.
\<close>

datatype event =
    TypeApiKey jstring
  | ClickSaveKey
  | ChangeModel jstring
  | ChangeAutoSpeak bool
  | ClickStopSpeech
  | TypeInput jstring
  | Send
  | ClickSpeaker nat
  | Settle fetch_result
  | SpeechStart
  | SpeechEnd
  | SpeechError


text \<open>
  The text shown by the \<open>catch\<close> clauses: \<open>`Error: ${error.message}`\<close>.
\<close>

definition error_text :: "js_error \<Rightarrow> jsval" where
  "error_text e = JStr (ascii ''Error: '' @ message e)"

section \<open>The simple variant\<close>

definition simple_init :: "jstring option \<Rightarrow> jstring option \<Rightarrow> bool \<Rightarrow> simple_app" where
  \<comment> \<open>the two \<open>localStorage\<close> items at load time, and whether the page has a welcome message\<close>
  "simple_init savedKey savedModel wm =
     (let key = (case savedKey of Some k \<Rightarrow> if k \<noteq> [] then k else [] | None \<Rightarrow> []);
          m = (case savedModel of
                 Some v \<Rightarrow> if v \<noteq> [] \<and> v \<in> set (map fst MODELS) then v else fst (hd MODELS)
               | None \<Rightarrow> fst (hd MODELS))
      in \<lparr>apiKeyInput = key, userInput = [], modelSelect = m, modelOptions = MODELS,
          chatContainer = [], welcomeMessage = wm, loading = 0, alerts = [],
          stored_api_key = savedKey, stored_model = savedModel, speechQueue = [],
          requests = [], inflight = 0,
          apiKey = key, model = m, history = [], autoSpeak = True, isSpeaking = False\<rparr>)"

text \<open>
  \<open>speakText\<close> cancels the queue first. A text that is not a string has no callable
  \<open>replace\<close>: the call throws after the cancel.
\<close>

definition simple_cleanText :: "jstring \<Rightarrow> jstring" where
  "simple_cleanText s = replace_marks s"

definition lang_of :: "jstring \<Rightarrow> jstring" where
  "lang_of cleanText = (if hasJapanese cleanText then ascii ''ja-JP'' else ascii ''en-US'')"

definition simple_speakText ::
  "engine \<Rightarrow> jsval \<Rightarrow> 'a browser_scheme \<Rightarrow> js_error option \<times> 'a browser_scheme" where
  "simple_speakText eng text a =
     (let a1 = a\<lparr>speechQueue := []\<rparr>
      in case text of
           JStr s \<Rightarrow>
             (let cleanText = simple_cleanText s;
                  u = \<lparr>utterance_text = cleanText, utterance_lang = lang_of cleanText\<rparr>
              in (None, a1\<lparr>speechQueue := speechQueue a1 @ [u]\<rparr>))
         | _ \<Rightarrow> (Some (Error (typeErrorMessage eng text (ascii ''replace''))), a1))"

definition simple_stopSpeaking :: "'a simple_app_scheme \<Rightarrow> 'a simple_app_scheme" where
  "simple_stopSpeaking a = a\<lparr>speechQueue := [], isSpeaking := False\<rparr>"

definition simple_system_prompt :: jstring where
  "simple_system_prompt =
     ascii ''You are a helpful AI assistant. Answer concisely and clearly.''"

definition simple_request :: "'a simple_app_scheme \<Rightarrow> request" where
  "simple_request a =
     \<lparr>req_url = GROQ_API_URL,
      req_authorization = ascii ''Bearer '' @ apiKey a,
      req_model = model a,
      req_messages = \<lparr>role = System, content = JStr simple_system_prompt\<rparr> # history a,
      req_temperature = 0.7,
      req_max_tokens = 1024\<rparr>"

definition simple_fetchGroqCompletion_send :: "'a simple_app_scheme \<Rightarrow> 'a simple_app_scheme" where
  "simple_fetchGroqCompletion_send a = send_request (simple_request a) a"

text \<open>\<open>handleSend\<close> up to its \<open>await\<close> (lines 96 to 120).\<close>

definition simple_handleSend :: "engine \<Rightarrow> 'a simple_app_scheme \<Rightarrow> 'a simple_app_scheme" where
  "simple_handleSend eng a =
     (let text = trim (userInput a)
      in if text = [] then a
         else if apiKey a = [] then alert (ascii ''Please set your Groq API Key first.'') a
         else
           (let a1 = a\<lparr>userInput := []\<rparr>;
                a2 = addMessageToHistory User (JStr text) a1;
                a3 = renderMessage User (JStr text) a2
            in case (if autoSpeak a3 then simple_speakText eng (JStr text) a3 else (None, a3)) of
                 (Some e, a4) \<Rightarrow> a4
               | (None, a4) \<Rightarrow> simple_fetchGroqCompletion_send (showLoading a4)))"

text \<open>\<open>handleSend\<close> from the point where the \<open>await\<close> returns or throws (lines 120 to 135).\<close>

definition simple_handleSend_resume ::
  "engine \<Rightarrow> fetch_result \<Rightarrow> 'a simple_app_scheme \<Rightarrow> 'a simple_app_scheme" where
  "simple_handleSend_resume eng r a =
     (let a0 = a\<lparr>inflight := inflight a - 1\<rparr>
      in case fetchGroqCompletion_receive eng r of
           Inl e \<Rightarrow> renderMessage System (error_text e) (removeLoading a0)
         | Inr responseText \<Rightarrow>
             (let a1 = removeLoading a0;
                  a2 = addMessageToHistory Assistant responseText a1;
                  a3 = renderMessage Assistant responseText a2
              in if autoSpeak a3 then
                   (case simple_speakText eng responseText a3 of
                      (None, a4) \<Rightarrow> a4
                    | (Some e, a4) \<Rightarrow> renderMessage System (error_text e) (removeLoading a4))
                 else a3))"

text \<open>One whole turn: the submission and, when it sent a request, the settling of it.\<close>

definition simple_turn ::
  "engine \<Rightarrow> fetch_result \<Rightarrow> 'a simple_app_scheme \<Rightarrow> 'a simple_app_scheme" where
  "simple_turn eng r a =
     (let a' = simple_handleSend eng a
      in if inflight a' = inflight a then a' else simple_handleSend_resume eng r a')"

fun simple_step :: "engine \<Rightarrow> simple_app \<Rightarrow> event \<Rightarrow> simple_app" where
  "simple_step eng a (TypeApiKey s) = a\<lparr>apiKeyInput := s\<rparr>"
| "simple_step eng a ClickSaveKey = saveApiKey a"
| "simple_step eng a (ChangeModel v) = modelChanged v a"
| "simple_step eng a (ChangeAutoSpeak b) = autoSpeakChanged b a"
| "simple_step eng a ClickStopSpeech = simple_stopSpeaking a"
| "simple_step eng a (TypeInput s) = a\<lparr>userInput := s\<rparr>"
| "simple_step eng a Send = simple_handleSend eng a"
| "simple_step eng a (ClickSpeaker n) =
     (if n < length (chatContainer a)
      then snd (simple_speakText eng (snd (chatContainer a ! n)) a) else a)"
| "simple_step eng a (Settle r) =
     (if inflight a = 0 then a else simple_handleSend_resume eng r a)"
| "simple_step eng a SpeechStart = a\<lparr>isSpeaking := True\<rparr>"
| "simple_step eng a SpeechEnd = a\<lparr>isSpeaking := False\<rparr>"
| "simple_step eng a SpeechError = a\<lparr>isSpeaking := False\<rparr>"

fun simple_run :: "engine \<Rightarrow> simple_app \<Rightarrow> event list \<Rightarrow> simple_app" where
  "simple_run eng a [] = a"
| "simple_run eng a (e # es) = simple_run eng (simple_step eng a e) es"


section \<open>The phase variant\<close>

text \<open>
  The texts of \<open>script.js\<close> that are not plain ASCII, by their UTF-16 code units; a
  template literal is given by the pieces around its placeholders.
\<close>

definition HTF_GRAMMAR :: jstring where
  "HTF_GRAMMAR =
     [0x000A] @
     ascii ''## HTF Grammar Definition (Holonic Text Format)'' @
     [0x000A] @
     ascii ''- Format: [KEY: Value {Attribute}]'' @
     [0x000A] @
     ascii ''- Hierarchy: 2'' @
     [0x3064, 0x306E, 0x30B9, 0x30DA, 0x30FC, 0x30B9, 0x306B, 0x3088, 0x308B, 0x30A4] @
     [0x30F3, 0x30C7, 0x30F3, 0x30C8, 0x3067, 0x7D99, 0x627F, 0x3092, 0x793A, 0x3059] @
     [0x3002, 0x000A] @
     ascii ''- Layers:'' @
     [0x000A] @
     ascii ''  1. KERNEL: @GLOBAL ('' @
     [0x4E0D, 0x5909, 0x306E, 0x6CD5, 0x5247] @
     ascii '')'' @
     [0x000A] @
     ascii ''  2. SCOPE: [ORDER], [AESTHETIC] ('' @
     [0x76EE, 0x7684, 0x3068, 0x7F8E, 0x5B66] @
     ascii '')'' @
     [0x000A] @
     ascii ''  3. ENVIRONMENT: [WORLD_SETTING], [LAW] ('' @
     [0x74B0, 0x5883, 0x3068, 0x5236, 0x7D04] @
     ascii '')'' @
     [0x000A] @
     ascii ''  4. ENTITY: [SUBJECT], [CLASS], [FUNCTION] ('' @
     [0x500B, 0x4F53, 0x3068, 0x6A5F, 0x80FD] @
     ascii '')'' @
     [0x000A] @
     ascii ''  5. EVENT: [ACTION], [PHASE] ('' @
     [0x6642, 0x9593, 0x7684, 0x79E9, 0x5E8F] @
     ascii '')'' @
     [0x000A] @
     ascii ''- Reference: &KEY '' @
     [0x3067, 0x4ED6, 0x306E, 0x30DB, 0x30ED, 0x30F3, 0x3092, 0x53C2, 0x7167, 0x3002] @
     [0x000A] @
     ascii ''- Goal: '' @
     [0x4E0E, 0x3048, 0x3089, 0x308C, 0x305F, 0x984C, 0x76EE, 0x306B, 0x5BFE, 0x3057] @
     [0x3001, 0x3053, 0x306E, 0x6587, 0x6CD5, 0x3092, 0x7528, 0x3044, 0x3066, 0x300C] @
     [0x8A8D, 0x77E5, 0x306E, 0x67A0, 0x7D44, 0x307F, 0xFF08, 0x30A4, 0x30F3, 0x30B9] @
     [0x30C8, 0x30E9, 0x30AF, 0x30B7, 0x30E7, 0x30F3, 0xFF09, 0x300D, 0x3092, 0x69CB] @
     [0x7BC9, 0x3059, 0x308B, 0x3053, 0x3068, 0x3002, 0x000A]"

definition systemContent_head :: jstring where
  \<comment> \<open>the system prompt before \<open>${HTF_GRAMMAR}\<close>, its line feed included\<close>
  "systemContent_head =
     [0x3042, 0x306A, 0x305F, 0x306F] @
     ascii ''HTF'' @
     [0xFF08] @
     ascii ''Holonic Text Format'' @
     [0xFF09, 0x306E, 0x5C02, 0x9580, 0x5BB6, 0x3067, 0x3042, 0x308A, 0x3001, 0x30E6] @
     [0x30FC, 0x30B6, 0x30FC, 0x306E, 0x8AB2, 0x984C, 0x89E3, 0x6C7A, 0x3092, 0x652F] @
     [0x63F4, 0x3059, 0x308B, 0x30B3, 0x30F3, 0x30B5, 0x30EB, 0x30BF, 0x30F3, 0x30C8] @
     [0x3067, 0x3059, 0x3002, 0x000A]"

definition systemContent_mid :: jstring where
  \<comment> \<open>between \<open>${HTF_GRAMMAR}\<close> and \<open>${state.topic}\<close>\<close>
  "systemContent_mid =
     [0x000A, 0x73FE, 0x5728, 0x306F, 0x300C, 0x5354, 0x8B70, 0x30D5, 0x30A7, 0x30FC] @
     [0x30BA, 0x300D, 0x3067, 0x3059, 0x3002, 0x30E6, 0x30FC, 0x30B6, 0x30FC, 0x306E] @
     [0x300C, 0x984C, 0x76EE, 0xFF1A]"

definition systemContent_tail :: jstring where
  \<comment> \<open>after \<open>${state.topic}\<close>\<close>
  "systemContent_tail =
     [0x300D, 0x306B, 0x5BFE, 0x3057, 0x3001, 0x6700, 0x9069, 0x306A, 0x79E9, 0x5E8F] @
     [0x3092, 0x751F, 0x6210, 0x3059, 0x308B, 0x305F, 0x3081, 0x306E] @
     ascii ''HTF'' @
     [0x69CB, 0x9020, 0x3092, 0x63D0, 0x6848, 0x3057, 0x3066, 0x304F, 0x3060, 0x3055] @
     [0x3044, 0x3002]"

definition missing_key_alert :: jstring where
  \<comment> \<open>line 122\<close>
  "missing_key_alert =
     ascii ''Groq API'' @
     [0x30AD, 0x30FC, 0x3092, 0x8A2D, 0x5B9A, 0x3057, 0x3066, 0x304F, 0x3060, 0x3055] @
     [0x3044, 0x3002]"

definition opening_notice :: jstring where
  \<comment> \<open>line 102\<close>
  "opening_notice =
     [0x89E3, 0x6C7A, 0x3057, 0x305F, 0x3044, 0x8AB2, 0x984C, 0xFF08, 0x984C, 0x76EE] @
     [0xFF09, 0x3092, 0x5165, 0x529B, 0x3057, 0x3066, 0x304F, 0x3060, 0x3055, 0x3044] @
     [0x3002, 0x3053, 0x308C, 0x3092, 0x30BF, 0x30A4, 0x30C8, 0x30EB, 0x3068, 0x3057] @
     [0x3066, 0x30D7, 0x30ED, 0x30B8, 0x30A7, 0x30AF, 0x30C8, 0x3092, 0x958B, 0x59CB] @
     [0x3057, 0x307E, 0x3059, 0x3002]"

definition topic_label :: jstring where
  \<comment> \<open>line 166, before \<open>${text}\<close>\<close>
  "topic_label =
     [0x984C, 0x76EE] @
     ascii '': ''"

definition topic_notice_head :: jstring where
  \<comment> \<open>line 167, before \<open>${text}\<close>\<close>
  "topic_notice_head =
     [0x984C, 0x76EE, 0x3092, 0x300C]"

definition topic_notice_tail :: jstring where
  \<comment> \<open>line 167, after \<open>${text}\<close>\<close>
  "topic_notice_tail =
     [0x300D, 0x306B, 0x8A2D, 0x5B9A, 0x3057, 0x307E, 0x3057, 0x305F, 0x3002, 0x3053] @
     [0x308C, 0x304B, 0x3089, 0x3053, 0x306E, 0x8AB2, 0x984C, 0x3092, 0x89E3, 0x6C7A] @
     [0x3059, 0x308B, 0x305F, 0x3081, 0x306E] @
     ascii ''HTF'' @
     [0x30A4, 0x30F3, 0x30B9, 0x30C8, 0x30E9, 0x30AF, 0x30B7, 0x30E7, 0x30F3, 0x3092] @
     [0x69CB, 0x7BC9, 0x3057, 0x307E, 0x3059, 0x3002] @
     ascii ''AI'' @
     [0x3068, 0x76F8, 0x8AC7, 0x3057, 0x306A, 0x304C, 0x3089, 0x6587, 0x8108, 0x3092] @
     [0x56FA, 0x3081, 0x3066, 0x3044, 0x304D, 0x307E, 0x3057, 0x3087, 0x3046, 0x3002]"

definition consultation_head :: jstring where
  \<comment> \<open>line 170, before \<open>${text}\<close>\<close>
  "consultation_head =
     [0x984C, 0x76EE, 0x306F, 0x300C]"

definition consultation_tail :: jstring where
  \<comment> \<open>line 170, after \<open>${text}\<close>\<close>
  "consultation_tail =
     [0x300D, 0x3067, 0x3059, 0x3002, 0x3053, 0x306E, 0x8AB2, 0x984C, 0x3092, 0x89E3] @
     [0x6C7A, 0x3059, 0x308B, 0x305F, 0x3081, 0x306B, 0x3001] @
     ascii ''HTF'' @
     [0x6587, 0x6CD5, 0x3092, 0x7528, 0x3044, 0x3066, 0x3069, 0x306E, 0x3088, 0x3046] @
     [0x306A] @
     ascii ''[SCOPE]'' @
     [0x3084] @
     ascii ''[ENVIRONMENT]'' @
     [0x3001] @
     ascii ''[ENTITY]'' @
     [0x3092, 0x5B9A, 0x7FA9, 0x3059, 0x3079, 0x304D, 0x304B, 0x3001, 0x79C1, 0x306B] @
     [0x8CEA, 0x554F, 0x3057, 0x306A, 0x304C, 0x3089, 0x5354, 0x8B70, 0x3092, 0x958B] @
     [0x59CB, 0x3057, 0x3066, 0x304F, 0x3060, 0x3055, 0x3044, 0x3002]"

definition init :: "jstring option \<Rightarrow> jstring option \<Rightarrow> bool \<Rightarrow> app" where
  "init savedKey savedModel wm =
     (let key = (case savedKey of Some k \<Rightarrow> if k \<noteq> [] then k else [] | None \<Rightarrow> []);
          m = (case savedModel of
                 Some v \<Rightarrow> if v \<noteq> [] \<and> v \<in> set (map fst MODELS) then v else fst (hd MODELS)
               | None \<Rightarrow> fst (hd MODELS))
      in renderMessage System (JStr opening_notice)
         \<lparr>apiKeyInput = key, userInput = [], modelSelect = m, modelOptions = MODELS,
          chatContainer = [], welcomeMessage = wm, loading = 0, alerts = [],
          stored_api_key = savedKey, stored_model = savedModel, speechQueue = [],
          requests = [], inflight = 0,
          apiKey = key, model = m, history = [], autoSpeak = True, isSpeaking = False,
          phase = TOPIC_SETTING, topic = [], currentHTF = [], topicDisplay = []\<rparr>)"

definition cleanText :: "jstring \<Rightarrow> jstring" where
  "cleanText s = replace_marks (replace_think s)"

definition speakText ::
  "engine \<Rightarrow> jsval \<Rightarrow> 'a browser_scheme \<Rightarrow> js_error option \<times> 'a browser_scheme" where
  "speakText eng text a =
     (let a1 = a\<lparr>speechQueue := []\<rparr>
      in case text of
           JStr s \<Rightarrow>
             (let ct = cleanText s;
                  u = \<lparr>utterance_text = ct, utterance_lang = lang_of ct\<rparr>
              in (None, a1\<lparr>speechQueue := speechQueue a1 @ [u]\<rparr>))
         | _ \<Rightarrow> (Some (Error (typeErrorMessage eng text (ascii ''replace''))), a1))"

definition stopSpeaking :: "'a browser_scheme \<Rightarrow> 'a browser_scheme" where
  "stopSpeaking a = a\<lparr>speechQueue := []\<rparr>"

definition systemContent :: "app \<Rightarrow> jstring" where
  "systemContent a =
     systemContent_head @ HTF_GRAMMAR @ systemContent_mid @ topic a @ systemContent_tail"

definition request :: "app \<Rightarrow> request" where
  "request a =
     \<lparr>req_url = GROQ_API_URL,
      req_authorization = ascii ''Bearer '' @ apiKey a,
      req_model = model a,
      req_messages = \<lparr>role = System, content = JStr (systemContent a)\<rparr> # history a,
      req_temperature = 0.7,
      req_max_tokens = 2048\<rparr>"

definition fetchGroqCompletion_send :: "app \<Rightarrow> app" where
  "fetchGroqCompletion_send a = send_request (request a) a"

text \<open>\<open>handleDiscussionStart\<close> up to its \<open>await\<close>, and from there on.\<close>

definition handleDiscussionStart :: "app \<Rightarrow> app" where
  "handleDiscussionStart a = fetchGroqCompletion_send (showLoading a)"

definition handleDiscussionStart_resume :: "engine \<Rightarrow> fetch_result \<Rightarrow> app \<Rightarrow> app" where
  "handleDiscussionStart_resume eng r a =
     (let a0 = a\<lparr>inflight := inflight a - 1\<rparr>
      in case fetchGroqCompletion_receive eng r of
           Inl e \<Rightarrow> renderMessage System (error_text e) (removeLoading a0)
         | Inr responseText \<Rightarrow>
             (let a1 = removeLoading a0;
                  a2 = addMessageToHistory Assistant responseText a1;
                  a3 = renderMessage Assistant responseText a2
              in if autoSpeak a3 then
                   (case speakText eng responseText a3 of
                      (None, a4) \<Rightarrow> a4
                    | (Some e, a4) \<Rightarrow> renderMessage System (error_text e) (removeLoading a4))
                 else a3))"

definition setTopic :: "jstring \<Rightarrow> app \<Rightarrow> app" where
  "setTopic text a =
     (let a1 = a\<lparr>topic := text, phase := HTF_DISCUSSION\<rparr>;
          a2 = a1\<lparr>topicDisplay := ascii ''Topic: '' @ text\<rparr>;
          a3 = renderMessage User (JStr (topic_label @ text)) a2;
          a4 = renderMessage System (JStr (topic_notice_head @ text @ topic_notice_tail)) a3;
          a5 = addMessageToHistory User
                 (JStr (consultation_head @ text @ consultation_tail)) a4
      in handleDiscussionStart a5)"

text \<open>\<open>handleSend\<close> up to its \<open>await\<close> (lines 118 to 141).\<close>

definition handleSend :: "app \<Rightarrow> app" where
  "handleSend a =
     (let text = trim (userInput a)
      in if text = [] then a
         else if apiKey a = [] then alert missing_key_alert a
         else
           (let a1 = a\<lparr>userInput := []\<rparr>
            in if phase a1 = TOPIC_SETTING then setTopic text a1
               else
                 (let a2 = addMessageToHistory User (JStr text) a1;
                      a3 = renderMessage User (JStr text) a2
                  in fetchGroqCompletion_send (showLoading a3))))"

text \<open>\<open>handleSend\<close> from the point where the \<open>await\<close> returns or throws (lines 141 to 154).\<close>

definition handleSend_resume :: "engine \<Rightarrow> fetch_result \<Rightarrow> app \<Rightarrow> app" where
  "handleSend_resume eng r a =
     (let a0 = a\<lparr>inflight := inflight a - 1\<rparr>
      in case fetchGroqCompletion_receive eng r of
           Inl e \<Rightarrow> renderMessage System (error_text e) (removeLoading a0)
         | Inr responseText \<Rightarrow>
             (let a1 = removeLoading a0;
                  a2 = addMessageToHistory Assistant responseText a1;
                  a3 = renderMessage Assistant responseText a2
              in if autoSpeak a3 then
                   (case speakText eng responseText a3 of
                      (None, a4) \<Rightarrow> a4
                    | (Some e, a4) \<Rightarrow> renderMessage System (error_text e) (removeLoading a4))
                 else a3))"

text \<open>One whole turn: the submission and, when it sent a request, the settling of it.\<close>

definition turn :: "engine \<Rightarrow> fetch_result \<Rightarrow> app \<Rightarrow> app" where
  "turn eng r a =
     (let a' = handleSend a
      in if inflight a' = inflight a then a'
         else if phase a = TOPIC_SETTING then handleDiscussionStart_resume eng r a'
         else handleSend_resume eng r a')"

text \<open>
  The two continuations have the same text, so a settling \<open>fetch\<close> resumes either; the
  narration callbacks have no listener in this variant.
\<close>

fun step :: "engine \<Rightarrow> app \<Rightarrow> event \<Rightarrow> app" where
  "step eng a (TypeApiKey s) = a\<lparr>apiKeyInput := s\<rparr>"
| "step eng a ClickSaveKey = saveApiKey a"
| "step eng a (ChangeModel v) = modelChanged v a"
| "step eng a (ChangeAutoSpeak b) = autoSpeakChanged b a"
| "step eng a ClickStopSpeech = stopSpeaking a"
| "step eng a (TypeInput s) = a\<lparr>userInput := s\<rparr>"
| "step eng a Send = handleSend a"
| "step eng a (ClickSpeaker n) =
     (if n < length (chatContainer a)
      then snd (speakText eng (snd (chatContainer a ! n)) a) else a)"
| "step eng a (Settle r) = (if inflight a = 0 then a else handleSend_resume eng r a)"
| "step eng a SpeechStart = a"
| "step eng a SpeechEnd = a"
| "step eng a SpeechError = a"

fun run :: "engine \<Rightarrow> app \<Rightarrow> event list \<Rightarrow> app" where
  "run eng a [] = a"
| "run eng a (e # es) = run eng (step eng a e) es"


section \<open>Notions used by the properties\<close>

text \<open>A message sequence without a system-role message.\<close>

definition no_system :: "message list \<Rightarrow> bool" where
  "no_system h = list_all (\<lambda>m. role m = User \<or> role m = Assistant) h"

definition system_count :: "message list \<Rightarrow> nat" where
  "system_count ms = length (filter (\<lambda>m. role m = System) ms)"

text \<open>The text of the first message of a request (empty when there is none).\<close>

definition system_text :: "request \<Rightarrow> jstring" where
  "system_text q =
     (case req_messages q of
        [] \<Rightarrow> []
      | m # _ \<Rightarrow> (case content m of JStr s \<Rightarrow> s | _ \<Rightarrow> []))"

text \<open>
  How often the phase goes from \<open>TOPIC_SETTING\<close> to \<open>HTF_DISCUSSION\<close> along a sequence
  of events.
\<close>

fun transitions :: "engine \<Rightarrow> app \<Rightarrow> event list \<Rightarrow> nat" where
  "transitions eng a [] = 0"
| "transitions eng a (e # es) =
     (if phase a = TOPIC_SETTING \<and> phase (step eng a e) = HTF_DISCUSSION then 1 else 0)
     + transitions eng (step eng a e) es"

text \<open>
  While the phase is \<open>TOPIC_SETTING\<close> nothing has been stored or sent yet.
\<close>

definition unopened :: "app \<Rightarrow> bool" where
  "unopened a \<longleftrightarrow>
     (phase a = TOPIC_SETTING \<longrightarrow>
        topic a = [] \<and> history a = [] \<and> requests a = [] \<and> inflight a = 0)"

text \<open>
  The trimmed input of the first submission along a sequence of events that passes both
  guards of \<open>handleSend\<close> (a non-empty trimmed input, a key configured).
\<close>

fun first_accepted :: "engine \<Rightarrow> app \<Rightarrow> event list \<Rightarrow> jstring option" where
  "first_accepted eng a [] = None"
| "first_accepted eng a (e # es) =
     (if e = Send \<and> trim (userInput a) \<noteq> [] \<and> apiKey a \<noteq> [] then Some (trim (userInput a))
      else first_accepted eng (step eng a e) es)"

subsection \<open>Sample values\<close>

text \<open>
  An engine for the examples: its \<open>TypeError\<close> texts follow V8, and \<open>String(v)\<close> of a
  value that is not a string is only fixed for the values the examples meet.
\<close>

definition example_engine :: engine where
  "example_engine =
     \<lparr>typeErrorMessage = (\<lambda>v p.
        if v = JUndefined \<or> v = JNull then
          ascii ''Cannot read properties of ''
          @ (if v = JNull then ascii ''null'' else ascii ''undefined'')
          @ ascii '' (reading '' @ [0x27] @ p @ [0x27] @ ascii '')''
        else ascii ''text.'' @ p @ ascii '' is not a function''),
      stringOf = (\<lambda>v. if v = JBool True then ascii ''true'' else ascii ''[object Object]'')\<rparr>"

text \<open>The error body of the scenario, \<open>{"error":{"message":"invalid_api_key"}}\<close>.\<close>

definition invalid_api_key_body :: jsval where
  "invalid_api_key_body =
     JObj [(ascii ''error'', JObj [(ascii ''message'', JStr (ascii ''invalid_api_key''))])]"

text \<open>A success body, \<open>{"choices":[{"message":{"role":"assistant","content":s}}]}\<close>.\<close>

definition completion_body :: "jstring \<Rightarrow> jsval" where
  "completion_body s =
     JObj [(ascii ''choices'',
            JArr [JObj [(ascii ''message'',
                         JObj [(ascii ''role'', JStr (ascii ''assistant'')),
                               (ascii ''content'', JStr s)])]])]"

text \<open>A success status whose first choice has a message without \<open>content\<close>.\<close>

definition contentless_body :: jsval where
  "contentless_body =
     JObj [(ascii ''choices'',
            JArr [JObj [(ascii ''message'',
                         JObj [(ascii ''role'', JStr (ascii ''assistant''))])]])]"

text \<open>
  A session of the phase variant loaded with a stored key, the same session after the
  topic turn of the scenario has been answered and a next input typed, and a session
  loaded without a key.
\<close>

definition fresh :: app where
  "fresh = init (Some (ascii ''gsk_demo'')) None True"

definition discussing :: app where
  "discussing =
     run example_engine fresh
       [TypeInput (ascii ''reduce onboarding drop-off''), Send,
        Settle (Response True (Parsed (completion_body (ascii ''Which step loses users?'')))),
        TypeInput (ascii '' hello '')]"

definition keyless :: app where
  "keyless = init None None True"

text \<open>A session of the simple variant loaded with a stored key and an input typed.\<close>

definition simple_ready :: simple_app where
  "simple_ready =
     simple_run example_engine (simple_init (Some (ascii ''gsk_demo'')) None True)
       [TypeInput (ascii '' hello '')]"

text \<open>
  Events of a session loaded without a key: a first submission, then a key is saved, a
  second submission is made and answered, and the first text is submitted once more.
\<close>

definition late_key_session :: "event list" where
  "late_key_session =
     [TypeInput (ascii ''first idea''), Send,
      TypeApiKey (ascii '' gsk_demo ''), ClickSaveKey,
      TypeInput (ascii ''second idea''), Send,
      Settle (Response True (Parsed (completion_body (ascii ''Which step loses users?'')))),
      TypeInput (ascii ''first idea''), Send]"

section \<open>Basic facts\<close>

lemma ascii_Nil_iff [simp]: "ascii s = [] \<longleftrightarrow> s = []"
  by (simp add: ascii_def)

lemma trim_Nil [simp]: "trim [] = []"
  by (simp add: trim_def)

lemma trim_examples:
  "trim (ascii '' hello '') = ascii ''hello''"
  "trim (ascii ''   '') = []"
  "trim (ascii ''reduce onboarding drop-off'') = ascii ''reduce onboarding drop-off''"
  "trim (ascii ''first idea'') = ascii ''first idea''"
  "trim (ascii ''second idea'') = ascii ''second idea''"
  "trim (ascii '' gsk_demo '') = ascii ''gsk_demo''"
  by (simp_all add: trim_def ascii_def isWhiteSpace_def)

lemmas page_defs = alert_def renderMessage_def showLoading_def removeLoading_def
  send_request_def addMessageToHistory_def

lemma speakText_fields [simp]:
  "history (snd (speakText eng v a)) = history a"
  "phase (snd (speakText eng v a)) = phase a"
  "topic (snd (speakText eng v a)) = topic a"
  "inflight (snd (speakText eng v a)) = inflight a"
  "requests (snd (speakText eng v a)) = requests a"
  "chatContainer (snd (speakText eng v a)) = chatContainer a"
  "apiKey (snd (speakText eng v a)) = apiKey a"
  "model (snd (speakText eng v a)) = model a"
  "userInput (snd (speakText eng v a)) = userInput a"
  "alerts (snd (speakText eng v a)) = alerts a"
  "autoSpeak (snd (speakText eng v a)) = autoSpeak a"
  by (simp_all add: speakText_def Let_def split: jsval.splits)

lemma simple_speakText_fields [simp]:
  "history (snd (simple_speakText eng v a)) = history a"
  "inflight (snd (simple_speakText eng v a)) = inflight a"
  "requests (snd (simple_speakText eng v a)) = requests a"
  "chatContainer (snd (simple_speakText eng v a)) = chatContainer a"
  "apiKey (snd (simple_speakText eng v a)) = apiKey a"
  "model (snd (simple_speakText eng v a)) = model a"
  "userInput (snd (simple_speakText eng v a)) = userInput a"
  by (simp_all add: simple_speakText_def Let_def split: jsval.splits)

lemma handleDiscussionStart_resume_eq:
  "handleDiscussionStart_resume eng r a = handleSend_resume eng r a"
  by (simp add: handleDiscussionStart_resume_def handleSend_resume_def)

lemma handleSend_fields:
  "history (handleSend a) =
     (if trim (userInput a) = [] \<or> apiKey a = [] then history a
      else if phase a = TOPIC_SETTING
        then history a @ [\<lparr>role = User, content = JStr (consultation_head @ trim (userInput a) @ consultation_tail)\<rparr>]
      else history a @ [\<lparr>role = User, content = JStr (trim (userInput a))\<rparr>])"
  "inflight (handleSend a) =
     (if trim (userInput a) = [] \<or> apiKey a = [] then inflight a else Suc (inflight a))"
  "requests (handleSend a) =
     (if trim (userInput a) = [] \<or> apiKey a = [] then requests a
      else requests a @ [request (handleSend a)])"
  "phase (handleSend a) =
     (if trim (userInput a) = [] \<or> apiKey a = [] then phase a
      else if phase a = TOPIC_SETTING then HTF_DISCUSSION else phase a)"
  "topic (handleSend a) =
     (if trim (userInput a) = [] \<or> apiKey a = [] then topic a
      else if phase a = TOPIC_SETTING then trim (userInput a) else topic a)"
  "chatContainer (handleSend a) =
     (if trim (userInput a) = [] \<or> apiKey a = [] then chatContainer a
      else if phase a = TOPIC_SETTING
        then chatContainer a @
          [(User, JStr (topic_label @ trim (userInput a))),
           (System, JStr (topic_notice_head @ trim (userInput a) @ topic_notice_tail))]
      else chatContainer a @ [(User, JStr (trim (userInput a)))])"
  "alerts (handleSend a) =
     (if trim (userInput a) \<noteq> [] \<and> apiKey a = [] then alerts a @ [missing_key_alert]
      else alerts a)"
  "apiKey (handleSend a) = apiKey a"
  "model (handleSend a) = model a"
  "autoSpeak (handleSend a) = autoSpeak a"
  by (simp_all add: handleSend_def Let_def setTopic_def handleDiscussionStart_def
      fetchGroqCompletion_send_def request_def systemContent_def page_defs)

lemma handleSend_resume_fields:
  "history (handleSend_resume eng r a) =
     history a @ (case fetchGroqCompletion_receive eng r of
                    Inl e \<Rightarrow> [] | Inr v \<Rightarrow> [\<lparr>role = Assistant, content = v\<rparr>])"
  "phase (handleSend_resume eng r a) = phase a"
  "autoSpeak (handleSend_resume eng r a) = autoSpeak a"
  "alerts (handleSend_resume eng r a) = alerts a"
  "topic (handleSend_resume eng r a) = topic a"
  "apiKey (handleSend_resume eng r a) = apiKey a"
  "model (handleSend_resume eng r a) = model a"
  "requests (handleSend_resume eng r a) = requests a"
  "inflight (handleSend_resume eng r a) = inflight a - 1"
  "chatContainer (handleSend_resume eng r a) =
     chatContainer a @
       (case fetchGroqCompletion_receive eng r of
          Inl e \<Rightarrow> [(System, error_text e)]
        | Inr v \<Rightarrow>
            (Assistant, v) #
            (if autoSpeak a then
               (case fst (speakText eng v
                       (renderMessage Assistant v (addMessageToHistory Assistant v
                          (removeLoading (a\<lparr>inflight := inflight a - 1\<rparr>))))) of
                  None \<Rightarrow> [] | Some e \<Rightarrow> [(System, error_text e)])
             else []))"
  by (auto simp: handleSend_resume_def Let_def page_defs
      split: sum.splits prod.splits option.splits
      dest: arg_cong[where f="\<lambda>p. history (snd p)"] arg_cong[where f="\<lambda>p. phase (snd p)"]
       arg_cong[where f="\<lambda>p. topic (snd p)"] arg_cong[where f="\<lambda>p. apiKey (snd p)"]
       arg_cong[where f="\<lambda>p. autoSpeak (snd p)"] arg_cong[where f="\<lambda>p. alerts (snd p)"]
       arg_cong[where f="\<lambda>p. model (snd p)"] arg_cong[where f="\<lambda>p. requests (snd p)"]
       arg_cong[where f="\<lambda>p. inflight (snd p)"] arg_cong[where f="\<lambda>p. chatContainer (snd p)"])

lemma turn_eq:
  "turn eng r a =
     (if trim (userInput a) = [] \<or> apiKey a = [] then handleSend a
      else handleSend_resume eng r (handleSend a))"
  by (simp add: turn_def Let_def handleSend_fields handleDiscussionStart_resume_eq)

lemma simple_handleSend_fields:
  "history (simple_handleSend eng a) =
     (if trim (userInput a) = [] \<or> apiKey a = [] then history a
      else history a @ [\<lparr>role = User, content = JStr (trim (userInput a))\<rparr>])"
  "inflight (simple_handleSend eng a) =
     (if trim (userInput a) = [] \<or> apiKey a = [] then inflight a else Suc (inflight a))"
  "requests (simple_handleSend eng a) =
     (if trim (userInput a) = [] \<or> apiKey a = [] then requests a
      else requests a @ [simple_request (simple_handleSend eng a)])"
  "chatContainer (simple_handleSend eng a) =
     (if trim (userInput a) = [] \<or> apiKey a = [] then chatContainer a
      else chatContainer a @ [(User, JStr (trim (userInput a)))])"
  "apiKey (simple_handleSend eng a) = apiKey a"
  "model (simple_handleSend eng a) = model a"
  "autoSpeak (simple_handleSend eng a) = autoSpeak a"
  by (simp_all add: simple_handleSend_def Let_def simple_speakText_def
      simple_fetchGroqCompletion_send_def simple_request_def page_defs)

lemma simple_handleSend_resume_fields:
  "history (simple_handleSend_resume eng r a) =
     history a @ (case fetchGroqCompletion_receive eng r of
                    Inl e \<Rightarrow> [] | Inr v \<Rightarrow> [\<lparr>role = Assistant, content = v\<rparr>])"
  "apiKey (simple_handleSend_resume eng r a) = apiKey a"
  "model (simple_handleSend_resume eng r a) = model a"
  "requests (simple_handleSend_resume eng r a) = requests a"
  "inflight (simple_handleSend_resume eng r a) = inflight a - 1"
  "chatContainer (simple_handleSend_resume eng r a) =
     chatContainer a @
       (case fetchGroqCompletion_receive eng r of
          Inl e \<Rightarrow> [(System, error_text e)]
        | Inr v \<Rightarrow>
            (Assistant, v) #
            (if autoSpeak a then
               (case fst (simple_speakText eng v
                       (renderMessage Assistant v (addMessageToHistory Assistant v
                          (removeLoading (a\<lparr>inflight := inflight a - 1\<rparr>))))) of
                  None \<Rightarrow> [] | Some e \<Rightarrow> [(System, error_text e)])
             else []))"
  by (auto simp: simple_handleSend_resume_def Let_def page_defs
      split: sum.splits prod.splits option.splits
      dest: arg_cong[where f="\<lambda>p. history (snd p)"] arg_cong[where f="\<lambda>p. apiKey (snd p)"]
       arg_cong[where f="\<lambda>p. model (snd p)"] arg_cong[where f="\<lambda>p. requests (snd p)"]
       arg_cong[where f="\<lambda>p. inflight (snd p)"] arg_cong[where f="\<lambda>p. chatContainer (snd p)"])

lemma simple_turn_eq:
  "simple_turn eng r a =
     (if trim (userInput a) = [] \<or> apiKey a = [] then simple_handleSend eng a
      else simple_handleSend_resume eng r (simple_handleSend eng a))"
  by (simp add: simple_turn_def Let_def simple_handleSend_fields)

lemma receive_failures:
  "fetchGroqCompletion_receive eng (Rejected m) = Inl (Error m)"
  "fetchGroqCompletion_receive eng (Response ok (NotJson m)) = Inl (Error m)"
  "\<exists>e. fetchGroqCompletion_receive eng (Response False bd) = Inl e"
  "map_of kvs (ascii ''choices'') = None \<Longrightarrow>
     \<exists>e. fetchGroqCompletion_receive eng (Response True (Parsed (JObj kvs))) = Inl e"
  by (auto simp: fetchGroqCompletion_receive_def first_choice_content_def
      split: body.splits sum.splits)

lemma receive_examples:
  "fetchGroqCompletion_receive eng (Response False (Parsed invalid_api_key_body))
     = Inl (Error (ascii ''invalid_api_key''))"
  "fetchGroqCompletion_receive eng (Response True (Parsed (completion_body s))) = Inr (JStr s)"
  "fetchGroqCompletion_receive eng (Response True (Parsed contentless_body)) = Inr JUndefined"
  by (simp_all add: fetchGroqCompletion_receive_def error_message_of_def
      first_choice_content_def invalid_api_key_body_def completion_body_def
      contentless_body_def ToString_def ascii_def)

lemma fresh_fields:
  "apiKey fresh = ascii ''gsk_demo''" "phase fresh = TOPIC_SETTING" "history fresh = []"
  "requests fresh = []" "userInput fresh = []" "inflight fresh = 0" "topic fresh = []"
  "autoSpeak fresh = True" "model fresh = ascii ''llama-3.3-70b-versatile''"
  "chatContainer fresh = [(System, JStr opening_notice)]"
  by (simp_all add: fresh_def init_def Let_def renderMessage_def MODELS_def)

lemma discussing_fields:
  "apiKey discussing = ascii ''gsk_demo''"
  "phase discussing = HTF_DISCUSSION"
  "topic discussing = ascii ''reduce onboarding drop-off''"
  "userInput discussing = ascii '' hello ''"
  "inflight discussing = 0"
  "history discussing =
     [\<lparr>role = User, content = JStr (consultation_head @ ascii ''reduce onboarding drop-off'' @ consultation_tail)\<rparr>,
      \<lparr>role = Assistant, content = JStr (ascii ''Which step loses users?'')\<rparr>]"
  "length (requests discussing) = 1"
  "autoSpeak discussing = True"
  by (simp_all add: discussing_def handleSend_fields handleSend_resume_fields fresh_fields
      trim_examples receive_examples)

lemma simple_ready_fields:
  "apiKey simple_ready = ascii ''gsk_demo''"
  "userInput simple_ready = ascii '' hello ''"
  "history simple_ready = []"
  "chatContainer simple_ready = []"
  "requests simple_ready = []"
  "inflight simple_ready = 0"
  by (simp_all add: simple_ready_def simple_init_def Let_def)

lemma keyless_fields:
  "apiKey keyless = []" "phase keyless = TOPIC_SETTING" "history keyless = []"
  "requests keyless = []" "alerts keyless = []" "userInput keyless = []"
  by (simp_all add: keyless_def init_def Let_def renderMessage_def)

lemma simple_keyless_fields:
  "apiKey (simple_init None None True) = []" "history (simple_init None None True) = []"
  "requests (simple_init None None True) = []" "alerts (simple_init None None True) = []"
  by (simp_all add: simple_init_def Let_def)

subsection \<open>Steps and runs\<close>

lemmas listener_defs = saveApiKey_def modelChanged_def autoSpeakChanged_def alert_def Let_def

lemma step_history:
  "history (step eng a e) =
     (case e of
        Send \<Rightarrow> history (handleSend a)
      | Settle r \<Rightarrow> if inflight a = 0 then history a else history (handleSend_resume eng r a)
      | _ \<Rightarrow> history a)"
  by (cases e) (simp_all add: listener_defs stopSpeaking_def)

lemma step_phase:
  "phase (step eng a e) = (case e of Send \<Rightarrow> phase (handleSend a) | _ \<Rightarrow> phase a)"
  by (cases e) (simp_all add: listener_defs stopSpeaking_def handleSend_resume_fields)

lemma step_topic:
  "topic (step eng a e) = (case e of Send \<Rightarrow> topic (handleSend a) | _ \<Rightarrow> topic a)"
  by (cases e) (simp_all add: listener_defs stopSpeaking_def handleSend_resume_fields)

lemma step_inflight:
  "inflight (step eng a e) =
     (case e of Send \<Rightarrow> inflight (handleSend a) | Settle r \<Rightarrow> inflight a - 1
      | _ \<Rightarrow> inflight a)"
  by (cases e) (simp_all add: listener_defs stopSpeaking_def handleSend_resume_fields)

lemma step_requests:
  "requests (step eng a e) =
     (case e of Send \<Rightarrow> requests (handleSend a) | _ \<Rightarrow> requests a)"
  by (cases e) (simp_all add: listener_defs stopSpeaking_def handleSend_resume_fields)

lemma no_system_append [simp]: "no_system (xs @ ys) \<longleftrightarrow> no_system xs \<and> no_system ys"
  by (simp add: no_system_def)

lemma no_system_simps [simp]:
  "no_system []"
  "no_system (m # ms) \<longleftrightarrow> (role m = User \<or> role m = Assistant) \<and> no_system ms"
  by (simp_all add: no_system_def)

lemma step_no_system: "no_system (history a) \<Longrightarrow> no_system (history (step eng a e))"
  by (simp add: step_history handleSend_fields handleSend_resume_fields
      split: event.splits sum.splits)

lemma run_no_system: "no_system (history a) \<Longrightarrow> no_system (history (run eng a es))"
  by (induction es arbitrary: a) (simp_all add: step_no_system)

lemma init_fields:
  "history (init k m w) = []" "phase (init k m w) = TOPIC_SETTING" "topic (init k m w) = []"
  "requests (init k m w) = []" "inflight (init k m w) = 0"
  by (simp_all add: init_def Let_def renderMessage_def)

lemma step_requests_cases:
  "requests (step eng a e) = requests a
   \<or> requests (step eng a e) = requests a @ [request (step eng a e)]"
  by (simp add: step_requests handleSend_fields split: event.splits)

lemma run_requests_all:
  assumes P: "\<And>s. no_system (history s) \<Longrightarrow> P (request s)"
  shows "no_system (history a) \<Longrightarrow> list_all P (requests a)
         \<Longrightarrow> list_all P (requests (run eng a es))"
proof (induction es arbitrary: a)
  case Nil
  then show ?case by simp
next
  case (Cons e es)
  have ns: "no_system (history (step eng a e))"
    using Cons.prems(1) by (rule step_no_system)
  have "list_all P (requests (step eng a e))"
    using step_requests_cases [of eng a e] Cons.prems(2) P [OF ns] by auto
  with ns show ?case by (simp add: Cons.IH)
qed

lemma step_unopened: "unopened a \<Longrightarrow> unopened (step eng a e)"
  by (auto simp: unopened_def step_history step_phase step_topic step_inflight
      step_requests handleSend_fields split: event.splits if_splits)

lemma run_unopened: "unopened a \<Longrightarrow> unopened (run eng a es)"
  by (induction es arbitrary: a) (simp_all add: step_unopened)

lemma init_unopened: "unopened (init k m w)"
  by (simp add: unopened_def init_fields)

lemma step_after_topic:
  "phase a \<noteq> TOPIC_SETTING \<Longrightarrow> phase (step eng a e) = phase a \<and> topic (step eng a e) = topic a"
  by (simp add: step_phase step_topic handleSend_fields split: event.splits)

lemma run_after_topic:
  "phase a \<noteq> TOPIC_SETTING \<Longrightarrow> phase (run eng a es) = phase a \<and> topic (run eng a es) = topic a"
  by (induction es arbitrary: a) (simp_all add: step_after_topic)

lemma transitions_after_topic:
  "phase a \<noteq> TOPIC_SETTING \<Longrightarrow> transitions eng a es = 0"
  by (induction es arbitrary: a) (simp_all add: step_after_topic)

lemma transitions_le_1: "transitions eng a es \<le> 1"
proof (induction es arbitrary: a)
  case Nil
  then show ?case by simp
next
  case (Cons e es)
  show ?case
  proof (cases "phase a = TOPIC_SETTING \<and> phase (step eng a e) = HTF_DISCUSSION")
    case True
    then have "transitions eng (step eng a e) es = 0"
      by (simp add: transitions_after_topic)
    with True show ?thesis by simp
  next
    case False
    with Cons.IH [of "step eng a e"] show ?thesis by auto
  qed
qed

lemma step_in_topic_setting:
  "phase a = TOPIC_SETTING \<Longrightarrow>
     (if e = Send \<and> trim (userInput a) \<noteq> [] \<and> apiKey a \<noteq> []
      then phase (step eng a e) = HTF_DISCUSSION \<and> topic (step eng a e) = trim (userInput a)
      else phase (step eng a e) = TOPIC_SETTING \<and> topic (step eng a e) = topic a)"
  by (simp add: step_phase step_topic handleSend_fields split: event.splits)

lemma run_first_accepted:
  "phase a = TOPIC_SETTING \<Longrightarrow>
     (case first_accepted eng a es of
        None \<Rightarrow> phase (run eng a es) = TOPIC_SETTING \<and> topic (run eng a es) = topic a
      | Some t \<Rightarrow> phase (run eng a es) = HTF_DISCUSSION \<and> topic (run eng a es) = t)"
proof (induction es arbitrary: a)
  case Nil
  then show ?case by simp
next
  case (Cons e es)
  show ?case
  proof (cases "e = Send \<and> trim (userInput a) \<noteq> [] \<and> apiKey a \<noteq> []")
    case True
    with step_in_topic_setting [OF Cons.prems, of e eng]
    have "phase (step eng a e) = HTF_DISCUSSION" "topic (step eng a e) = trim (userInput a)"
      by simp_all
    with run_after_topic [of "step eng a e" eng es] True show ?thesis by simp
  next
    case False
    with step_in_topic_setting [OF Cons.prems, of e eng]
    have "phase (step eng a e) = TOPIC_SETTING" "topic (step eng a e) = topic a"
      by auto
    with Cons.IH [of "step eng a e"] False show ?thesis by (auto split: option.splits)
  qed
qed

lemma simple_step_history:
  "history (simple_step eng a e) =
     (case e of
        Send \<Rightarrow> history (simple_handleSend eng a)
      | Settle r \<Rightarrow>
          if inflight a = 0 then history a else history (simple_handleSend_resume eng r a)
      | _ \<Rightarrow> history a)"
  by (cases e) (simp_all add: listener_defs simple_stopSpeaking_def)

lemma simple_step_requests:
  "requests (simple_step eng a e) =
     (case e of Send \<Rightarrow> requests (simple_handleSend eng a) | _ \<Rightarrow> requests a)"
  by (cases e) (simp_all add: listener_defs simple_stopSpeaking_def
      simple_handleSend_resume_fields)

lemma simple_step_no_system:
  "no_system (history a) \<Longrightarrow> no_system (history (simple_step eng a e))"
  by (simp add: simple_step_history simple_handleSend_fields simple_handleSend_resume_fields
      split: event.splits sum.splits)

lemma simple_run_no_system:
  "no_system (history a) \<Longrightarrow> no_system (history (simple_run eng a es))"
  by (induction es arbitrary: a) (simp_all add: simple_step_no_system)

lemma simple_init_fields:
  "history (simple_init k m w) = []" "requests (simple_init k m w) = []"
  "inflight (simple_init k m w) = 0" "chatContainer (simple_init k m w) = []"
  by (simp_all add: simple_init_def Let_def)

lemma simple_step_requests_cases:
  "requests (simple_step eng a e) = requests a
   \<or> requests (simple_step eng a e) = requests a @ [simple_request (simple_step eng a e)]"
  by (simp add: simple_step_requests simple_handleSend_fields split: event.splits)

lemma simple_run_requests_all:
  assumes P: "\<And>s::simple_app. no_system (history s) \<Longrightarrow> P (simple_request s)"
  shows "no_system (history a) \<Longrightarrow> list_all P (requests a)
         \<Longrightarrow> list_all P (requests (simple_run eng a es))"
proof (induction es arbitrary: a)
  case Nil
  then show ?case by simp
next
  case (Cons e es)
  have ns: "no_system (history (simple_step eng a e))"
    using Cons.prems(1) by (rule simple_step_no_system)
  have "list_all P (requests (simple_step eng a e))"
    using simple_step_requests_cases [of eng a e] Cons.prems(2) P [OF ns] by auto
  with ns show ?case by (simp add: Cons.IH)
qed

lemma system_count_no_system: "no_system h \<Longrightarrow> system_count h = 0"
  by (induction h) (auto simp: system_count_def)

lemma request_one_system:
  "no_system (history a) \<Longrightarrow>
     system_count (req_messages (request a)) = 1
     \<and> role (hd (req_messages (request a))) = System
     \<and> no_system (tl (req_messages (request a)))"
  using system_count_no_system [of "history a"]
  by (simp add: request_def system_count_def)

lemma simple_request_one_system:
  "no_system (history a) \<Longrightarrow>
     system_count (req_messages (simple_request a)) = 1
     \<and> role (hd (req_messages (simple_request a))) = System
     \<and> no_system (tl (req_messages (simple_request a)))"
  using system_count_no_system [of "history a"]
  by (simp add: simple_request_def system_count_def)

lemma systemContent_embeds:
  "sublist HTF_GRAMMAR (systemContent a)" "sublist (topic a) (systemContent a)"
proof -
  show "sublist HTF_GRAMMAR (systemContent a)"
    unfolding systemContent_def by (rule sublist_appendI)
  have "systemContent a
          = (systemContent_head @ HTF_GRAMMAR @ systemContent_mid) @ topic a @ systemContent_tail"
    by (simp add: systemContent_def)
  then show "sublist (topic a) (systemContent a)"
    by (simp only: sublist_appendI)
qed

lemma request_parameters:
  "no_system (history a) \<Longrightarrow>
     req_url (request a) = GROQ_API_URL
     \<and> req_temperature (request a) = 0.7 \<and> req_max_tokens (request a) = 2048
     \<and> sublist HTF_GRAMMAR (system_text (request a))"
  by (simp add: request_def system_text_def systemContent_embeds)

lemma simple_request_parameters:
  "no_system (history a) \<Longrightarrow>
     req_url (simple_request a) = GROQ_API_URL
     \<and> req_temperature (simple_request a) = 0.7 \<and> req_max_tokens (simple_request a) = 1024
     \<and> system_text (simple_request a) = simple_system_prompt"
  by (simp add: simple_request_def system_text_def)

lemma keyless_attempt_phase:
  "phase (run example_engine (init None None True) [TypeInput (ascii ''first idea''), Send])
     = TOPIC_SETTING"
  by (simp add: handleSend_fields trim_examples init_def Let_def renderMessage_def)

lemma late_key_session_facts:
  "first_accepted example_engine keyless late_key_session = Some (ascii ''second idea'')"
  "transitions example_engine keyless late_key_session = 1"
  by (simp_all add: late_key_session_def keyless_def init_def Let_def renderMessage_def
      trim_examples saveApiKey_def alert_def handleSend_fields handleSend_resume_fields)

subsection \<open>The text to narrate\<close>

lemma find_sub_None: "\<not> sublist pat s \<Longrightarrow> find_sub pat s = None"
proof (induction s)
  case Nil
  then show ?case by (cases pat) auto
next
  case (Cons c cs)
  have "\<not> prefix pat (c # cs)"
    using Cons.prems by (auto dest: prefix_imp_sublist)
  moreover have "\<not> sublist pat cs"
    using Cons.prems by (auto simp: sublist_Cons_right)
  ultimately show ?case using Cons.IH by simp
qed

lemma find_sub_first:
  "pat \<noteq> [] \<Longrightarrow> \<not> sublist pat (b @ butlast pat) \<Longrightarrow> find_sub pat (b @ pat @ r) = Some (b, r)"
proof (induction b)
  case Nil
  then obtain c cs where "pat = c # cs" by (cases pat) auto
  then show ?case by simp
next
  case (Cons c b)
  have "\<not> prefix pat (c # b @ pat @ r)"
  proof
    assume "prefix pat (c # b @ pat @ r)"
    moreover have "pat @ r = butlast pat @ last pat # r"
      using Cons.prems(1) append_butlast_last_id [of pat]
      by (metis append.assoc append_Cons append_Nil)
    ultimately have "prefix pat (((c # b) @ butlast pat) @ [last pat] @ r)"
      by simp
    moreover have "length pat \<le> length ((c # b) @ butlast pat)" by simp
    ultimately have "prefix pat ((c # b) @ butlast pat)"
      by (metis prefix_length_prefix prefixI)
    then have "sublist pat ((c # b) @ butlast pat)" by (rule prefix_imp_sublist)
    with Cons.prems(2) show False by simp
  qed
  moreover have "\<not> sublist pat (b @ butlast pat)"
    using Cons.prems(2) by (auto simp: sublist_Cons_right)
  ultimately show ?case using Cons.IH [OF Cons.prems(1)] by simp
qed

lemma think_tags_nonempty: "think_open \<noteq> []" "think_close \<noteq> []"
  by (simp_all add: think_open_def think_close_def ascii_def)

lemma replace_think_block:
  assumes "\<not> sublist think_open (pre @ butlast think_open)"
    and "\<not> sublist think_close (inner @ butlast think_close)"
  shows "replace_think (pre @ think_open @ inner @ think_close @ post) = pre @ replace_think post"
proof -
  have "find_sub think_open (pre @ think_open @ inner @ think_close @ post)
          = Some (pre, inner @ think_close @ post)"
    using assms(1) by (simp add: find_sub_first think_tags_nonempty)
  moreover have "find_sub think_close (inner @ think_close @ post) = Some (inner, post)"
    using assms(2) by (simp add: find_sub_first think_tags_nonempty)
  ultimately show ?thesis
    by (subst replace_think.simps) simp
qed

lemma replace_think_no_open: "\<not> sublist think_open s \<Longrightarrow> replace_think s = s"
  by (subst replace_think.simps) (simp add: find_sub_None)

lemma replace_think_unclosed:
  "\<not> sublist think_open (pre @ butlast think_open) \<Longrightarrow> \<not> sublist think_close rest
     \<Longrightarrow> replace_think (pre @ think_open @ rest) = pre @ think_open @ rest"
  by (subst replace_think.simps) (simp add: find_sub_first find_sub_None think_tags_nonempty)

lemma speakText_JStr:
  "speakText eng (JStr s) a =
     (None, a\<lparr>speechQueue := [\<lparr>utterance_text = cleanText s,
                                  utterance_lang = lang_of (cleanText s)\<rparr>]\<rparr>)"
  "simple_speakText eng (JStr s) b =
     (None, b\<lparr>speechQueue := [\<lparr>utterance_text = simple_cleanText s,
                                  utterance_lang = lang_of (simple_cleanText s)\<rparr>]\<rparr>)"
  by (simp_all add: speakText_def simple_speakText_def Let_def)

lemma speakText_only_queue:
  "snd (speakText eng v a) = a\<lparr>speechQueue := speechQueue (snd (speakText eng v a))\<rparr>"
  "snd (simple_speakText eng v b) = b\<lparr>speechQueue := speechQueue (snd (simple_speakText eng v b))\<rparr>"
  by (simp_all add: speakText_def simple_speakText_def Let_def split: jsval.splits)

lemma cleanText_example:
  "cleanText (ascii ''<think>secret</think>Hello'') = ascii ''Hello''"
  "simple_cleanText (ascii ''<think>secret</think>Hello'') = ascii ''<think>secret</think>Hello''"
  by (simp_all add: cleanText_def simple_cleanText_def replace_think.simps think_open_def
      think_close_def ascii_def replace_marks_def isMarkdownMark_def)

lemma no_tag_examples:
  "\<not> sublist think_open ([] @ butlast think_open)"
  "\<not> sublist think_close (ascii ''secret'' @ butlast think_close)"
  "\<not> sublist think_open (ascii ''Hello'')"
  "\<not> sublist think_close (ascii ''Hello'')"
  by (simp_all add: think_open_def think_close_def ascii_def sublist_Cons_right)

section \<open>Blank submissions and submissions without a key\<close>

text \<open>
  C9. A submission whose input is empty after trimming changes nothing at all: the state
  after \<open>handleSend\<close> is the state before it, so the history is not touched and no request
  is sent. A submission with a non-empty input and no API key only adds one alert: no
  request is sent, none is pending afterwards, and the history is unchanged. Both hold in
  the phase variant (\<open>a\<close>) and in the simple variant (\<open>b\<close>).
\<close>

theorem blank_or_keyless_submission:
  "(trim (userInput a) = [] \<longrightarrow> handleSend a = a \<and> turn eng r a = a)
   \<and> (trim (userInput a) \<noteq> [] \<and> apiKey a = [] \<longrightarrow>
        turn eng r a = handleSend a
        \<and> handleSend a = a\<lparr>alerts := alerts a @ [missing_key_alert]\<rparr>
        \<and> requests (handleSend a) = requests a
        \<and> inflight (handleSend a) = inflight a
        \<and> history (handleSend a) = history a)
   \<and> (trim (userInput b) = [] \<longrightarrow>
        simple_handleSend eng b = b \<and> simple_turn eng r b = b)
   \<and> (trim (userInput b) \<noteq> [] \<and> apiKey b = [] \<longrightarrow>
        simple_turn eng r b = simple_handleSend eng b
        \<and> simple_handleSend eng b =
            b\<lparr>alerts := alerts b @ [ascii ''Please set your Groq API Key first.'']\<rparr>
        \<and> requests (simple_handleSend eng b) = requests b
        \<and> inflight (simple_handleSend eng b) = inflight b
        \<and> history (simple_handleSend eng b) = history b)"
  by (simp add: handleSend_def turn_def simple_handleSend_def simple_turn_def alert_def Let_def)

theorem blank_or_keyless_submission_witness:
  "handleSend (keyless\<lparr>userInput := ascii ''   ''\<rparr>) = keyless\<lparr>userInput := ascii ''   ''\<rparr>
   \<and> requests (handleSend (keyless\<lparr>userInput := ascii '' hello ''\<rparr>)) = []
   \<and> history (handleSend (keyless\<lparr>userInput := ascii '' hello ''\<rparr>)) = []
   \<and> alerts (handleSend (keyless\<lparr>userInput := ascii '' hello ''\<rparr>)) = [missing_key_alert]
   \<and> simple_handleSend example_engine ((simple_init None None True)\<lparr>userInput := ascii ''   ''\<rparr>)
       = (simple_init None None True)\<lparr>userInput := ascii ''   ''\<rparr>
   \<and> requests (simple_handleSend example_engine
         ((simple_init None None True)\<lparr>userInput := ascii '' hello ''\<rparr>)) = []
   \<and> history (simple_handleSend example_engine
         ((simple_init None None True)\<lparr>userInput := ascii '' hello ''\<rparr>)) = []
   \<and> alerts (simple_handleSend example_engine
         ((simple_init None None True)\<lparr>userInput := ascii '' hello ''\<rparr>))
       = [ascii ''Please set your Groq API Key first.'']"
  using blank_or_keyless_submission
          [of "keyless\<lparr>userInput := ascii ''   ''\<rparr>" example_engine "Rejected []"
              "(simple_init None None True)\<lparr>userInput := ascii ''   ''\<rparr>"]
        blank_or_keyless_submission
          [of "keyless\<lparr>userInput := ascii '' hello ''\<rparr>" example_engine "Rejected []"
              "(simple_init None None True)\<lparr>userInput := ascii '' hello ''\<rparr>"]
  by (simp add: trim_examples keyless_fields simple_keyless_fields)

section \<open>A turn of the discussion\<close>

text \<open>
  C4. In the discussion phase, with a key configured, a submission whose trimmed input is
  not empty appends exactly one user message holding the trimmed input before the request
  leaves; when the completion succeeds (\<open>fetchGroqCompletion\<close> returns a value) the turn
  appends exactly one assistant message holding that value behind it, and nothing else;
  when it does not succeed the user message is all the turn appends. The same holds for
  every such submission of the simple variant (\<open>b\<close>).
\<close>

theorem discussion_turn_appends_user_then_assistant:
  "(phase a = HTF_DISCUSSION \<and> trim (userInput a) \<noteq> [] \<and> apiKey a \<noteq> [] \<longrightarrow>
      history (handleSend a) = history a @ [\<lparr>role = User, content = JStr (trim (userInput a))\<rparr>]
    \<and> history (turn eng r a) =
        history a @ \<lparr>role = User, content = JStr (trim (userInput a))\<rparr> #
          (case fetchGroqCompletion_receive eng r of
             Inr v \<Rightarrow> [\<lparr>role = Assistant, content = v\<rparr>]
           | Inl e \<Rightarrow> []))
   \<and> (trim (userInput b) \<noteq> [] \<and> apiKey b \<noteq> [] \<longrightarrow>
      history (simple_handleSend eng b) =
        history b @ [\<lparr>role = User, content = JStr (trim (userInput b))\<rparr>]
    \<and> history (simple_turn eng r b) =
        history b @ \<lparr>role = User, content = JStr (trim (userInput b))\<rparr> #
          (case fetchGroqCompletion_receive eng r of
             Inr v \<Rightarrow> [\<lparr>role = Assistant, content = v\<rparr>]
           | Inl e \<Rightarrow> []))"
  by (simp add: turn_eq simple_turn_eq handleSend_fields handleSend_resume_fields
      simple_handleSend_fields simple_handleSend_resume_fields)

theorem discussion_turn_appends_user_then_assistant_witness:
  "history (turn example_engine (Response True (Parsed (completion_body (ascii ''Hi!''))))
      discussing)
     = history discussing @
         [\<lparr>role = User, content = JStr (ascii ''hello'')\<rparr>,
          \<lparr>role = Assistant, content = JStr (ascii ''Hi!'')\<rparr>]
   \<and> history (simple_turn example_engine
        (Response True (Parsed (completion_body (ascii ''Hi!'')))) simple_ready)
     = [\<lparr>role = User, content = JStr (ascii ''hello'')\<rparr>,
        \<lparr>role = Assistant, content = JStr (ascii ''Hi!'')\<rparr>]"
proof -
  have hyp: "phase discussing = HTF_DISCUSSION \<and> trim (userInput discussing) \<noteq> []
      \<and> apiKey discussing \<noteq> []"
    and hyp': "trim (userInput simple_ready) \<noteq> [] \<and> apiKey simple_ready \<noteq> []"
    by (simp_all add: discussing_fields simple_ready_fields trim_examples)
  from hyp hyp'
    discussion_turn_appends_user_then_assistant [of discussing example_engine
      "Response True (Parsed (completion_body (ascii ''Hi!'')))" simple_ready]
  show ?thesis
    by (simp add: discussing_fields simple_ready_fields trim_examples receive_examples)
qed

section \<open>A turn whose completion fails\<close>

text \<open>
  C1, as the code has it. \<open>fetchGroqCompletion\<close> throws on a rejected fetch, on a body
  that is not JSON, on every response whose status is not a success, and on a success
  body without \<open>choices\<close>. For a submission in the discussion phase with a non-empty
  trimmed input and a key configured whose completion throws: exactly one system-role
  message is rendered, after the user's, and its text is \<open>Error: \<close> followed by the
  message of the error; the history is what it was when the request left, that is the
  history before the submission followed by the one user message of this turn, and no
  assistant message is appended; the phase and the key are unchanged and no request is
  pending any more than before. The same holds in the simple variant (\<open>b\<close>).
\<close>

theorem failed_completion_turn:
  "fetchGroqCompletion_receive eng (Rejected m) = Inl (Error m)
   \<and> fetchGroqCompletion_receive eng (Response ok (NotJson m)) = Inl (Error m)
   \<and> (\<exists>e'. fetchGroqCompletion_receive eng (Response False bd) = Inl e')
   \<and> (map_of kvs (ascii ''choices'') = None \<longrightarrow>
        (\<exists>e'. fetchGroqCompletion_receive eng (Response True (Parsed (JObj kvs))) = Inl e'))
   \<and> (phase a = HTF_DISCUSSION \<and> trim (userInput a) \<noteq> [] \<and> apiKey a \<noteq> []
        \<and> fetchGroqCompletion_receive eng r = Inl e \<longrightarrow>
        chatContainer (turn eng r a) =
          chatContainer a @ [(User, JStr (trim (userInput a))),
                             (System, JStr (ascii ''Error: '' @ message e))]
        \<and> history (turn eng r a) = history (handleSend a)
        \<and> history (turn eng r a) =
            history a @ [\<lparr>role = User, content = JStr (trim (userInput a))\<rparr>]
        \<and> phase (turn eng r a) = phase a
        \<and> apiKey (turn eng r a) = apiKey a
        \<and> inflight (turn eng r a) = inflight a)
   \<and> (trim (userInput b) \<noteq> [] \<and> apiKey b \<noteq> []
        \<and> fetchGroqCompletion_receive eng r = Inl e \<longrightarrow>
        chatContainer (simple_turn eng r b) =
          chatContainer b @ [(User, JStr (trim (userInput b))),
                             (System, JStr (ascii ''Error: '' @ message e))]
        \<and> history (simple_turn eng r b) = history (simple_handleSend eng b)
        \<and> history (simple_turn eng r b) =
            history b @ [\<lparr>role = User, content = JStr (trim (userInput b))\<rparr>]
        \<and> apiKey (simple_turn eng r b) = apiKey b
        \<and> inflight (simple_turn eng r b) = inflight b)"
  using receive_failures(3) [of eng bd] receive_failures(4) [of kvs eng]
  by (simp add: receive_failures(1,2) turn_eq simple_turn_eq handleSend_fields
      handleSend_resume_fields simple_handleSend_fields simple_handleSend_resume_fields
      error_text_def)

theorem failed_completion_turn_witness:
  "chatContainer (turn example_engine (Response False (Parsed invalid_api_key_body)) discussing)
     = chatContainer discussing @
         [(User, JStr (ascii ''hello'')), (System, JStr (ascii ''Error: invalid_api_key''))]
   \<and> history (turn example_engine (Response False (Parsed invalid_api_key_body)) discussing)
     = history discussing @ [\<lparr>role = User, content = JStr (ascii ''hello'')\<rparr>]
   \<and> phase (turn example_engine (Response False (Parsed invalid_api_key_body)) discussing)
     = HTF_DISCUSSION
   \<and> chatContainer (simple_turn example_engine (Response False (Parsed invalid_api_key_body))
        simple_ready)
     = [(User, JStr (ascii ''hello'')), (System, JStr (ascii ''Error: invalid_api_key''))]
   \<and> history (simple_turn example_engine (Response False (Parsed invalid_api_key_body))
        simple_ready)
     = [\<lparr>role = User, content = JStr (ascii ''hello'')\<rparr>]"
proof -
  have hyp: "phase discussing = HTF_DISCUSSION \<and> trim (userInput discussing) \<noteq> []
      \<and> apiKey discussing \<noteq> []
      \<and> fetchGroqCompletion_receive example_engine
           (Response False (Parsed invalid_api_key_body)) = Inl (Error (ascii ''invalid_api_key''))"
    and hyp': "trim (userInput simple_ready) \<noteq> [] \<and> apiKey simple_ready \<noteq> []"
    by (simp_all add: discussing_fields simple_ready_fields trim_examples receive_examples)
  have msg: "ascii ''Error: '' @ ascii ''invalid_api_key'' = ascii ''Error: invalid_api_key''"
    by (simp add: ascii_def)
  from hyp hyp'
    failed_completion_turn [of example_engine "[]" True "NotJson []" "[]" discussing
      "Response False (Parsed invalid_api_key_body)" "Error (ascii ''invalid_api_key'')"
      simple_ready]
  show ?thesis
    by (simp add: discussing_fields simple_ready_fields trim_examples msg handleSend_fields
        simple_handleSend_fields)
qed

text \<open>
  C1 as stated fails: after the failed call of the scenario
  (\<open>{"error":{"message":"invalid_api_key"}}\<close> under an error status) the history is not
  what it was before the submission; it is longer by the user message, which
  \<open>handleSend\<close> appended before the request left and nothing takes back.
\<close>

theorem failed_turn_keeps_user_message:
  "phase discussing = HTF_DISCUSSION
   \<and> trim (userInput discussing) \<noteq> []
   \<and> apiKey discussing \<noteq> []
   \<and> fetchGroqCompletion_receive example_engine (Response False (Parsed invalid_api_key_body))
       = Inl (Error (ascii ''invalid_api_key''))
   \<and> history (turn example_engine (Response False (Parsed invalid_api_key_body)) discussing)
       \<noteq> history discussing
   \<and> length (history (turn example_engine (Response False (Parsed invalid_api_key_body))
        discussing)) = Suc (length (history discussing))"
  by (simp add: discussing_fields trim_examples receive_examples turn_eq handleSend_fields
      handleSend_resume_fields)

text \<open>
  A success status whose first choice carries a message without \<open>content\<close> is not a
  failure for \<open>fetchGroqCompletion\<close>: it returns \<open>undefined\<close>, the turn stores an
  assistant message with that content, and with auto-speak on \<open>speakText\<close> then throws
  inside the \<open>try\<close> block, so that an error is rendered all the same.
\<close>

lemma contentless_reply_is_stored:
  "fetchGroqCompletion_receive example_engine (Response True (Parsed contentless_body))
     = Inr JUndefined
   \<and> history (turn example_engine (Response True (Parsed contentless_body)) discussing)
     = history discussing @
         [\<lparr>role = User, content = JStr (ascii ''hello'')\<rparr>,
          \<lparr>role = Assistant, content = JUndefined\<rparr>]
   \<and> chatContainer (turn example_engine (Response True (Parsed contentless_body)) discussing)
     = chatContainer discussing @
         [(User, JStr (ascii ''hello'')), (Assistant, JUndefined),
          (System, JStr (ascii ''Error: ''
                         @ typeErrorMessage example_engine JUndefined (ascii ''replace'')))]"
  by (simp add: discussing_fields trim_examples receive_examples turn_eq handleSend_fields
      handleSend_resume_fields speakText_def Let_def error_text_def page_defs)

section \<open>Requests per turn\<close>

text \<open>
  C3, as the code has it. Every submission with a non-empty trimmed input and a key
  configured sends exactly one request, in the discussion phase and in the turn that
  leaves \<open>TOPIC_SETTING\<close> alike. In that turn the topic announcement and the notice are
  only rendered; the history receives the generated consultation message, and the one
  request of the turn is the completion call for it, carrying the system prompt, the
  history so far and that message. Every such submission of the simple variant (\<open>b\<close>)
  sends exactly one request too.
\<close>

theorem one_request_per_turn:
  "(trim (userInput a) \<noteq> [] \<and> apiKey a \<noteq> [] \<longrightarrow>
      requests (turn eng r a) = requests a @ [request (handleSend a)]
    \<and> length (requests (turn eng r a)) = Suc (length (requests a))
    \<and> (phase a = TOPIC_SETTING \<longrightarrow>
          phase (turn eng r a) = HTF_DISCUSSION
        \<and> chatContainer (handleSend a) =
            chatContainer a @
              [(User, JStr (topic_label @ trim (userInput a))),
               (System, JStr (topic_notice_head @ trim (userInput a) @ topic_notice_tail))]
        \<and> history (handleSend a) =
            history a @
              [\<lparr>role = User,
                content = JStr (consultation_head @ trim (userInput a) @ consultation_tail)\<rparr>]
        \<and> req_messages (request (handleSend a)) =
            \<lparr>role = System, content = JStr (systemContent (handleSend a))\<rparr> #
            history a @
              [\<lparr>role = User,
                content = JStr (consultation_head @ trim (userInput a) @ consultation_tail)\<rparr>]))
   \<and> (trim (userInput b) \<noteq> [] \<and> apiKey b \<noteq> [] \<longrightarrow>
      requests (simple_turn eng r b) = requests b @ [simple_request (simple_handleSend eng b)]
    \<and> length (requests (simple_turn eng r b)) = Suc (length (requests b)))"
  by (simp add: turn_eq simple_turn_eq handleSend_fields handleSend_resume_fields
      simple_handleSend_fields simple_handleSend_resume_fields request_def)

theorem one_request_per_turn_witness:
  "length (requests (turn example_engine (Rejected [])
      (fresh\<lparr>userInput := ascii ''reduce onboarding drop-off''\<rparr>))) = 1
   \<and> history (handleSend (fresh\<lparr>userInput := ascii ''reduce onboarding drop-off''\<rparr>)) =
       [\<lparr>role = User,
         content = JStr (consultation_head @ ascii ''reduce onboarding drop-off''
                         @ consultation_tail)\<rparr>]
   \<and> length (requests (turn example_engine (Rejected []) discussing))
       = Suc (length (requests discussing))
   \<and> length (requests (simple_turn example_engine (Rejected []) simple_ready)) = 1"
proof -
  have hyp: "trim (userInput (fresh\<lparr>userInput := ascii ''reduce onboarding drop-off''\<rparr>)) \<noteq> []
      \<and> apiKey (fresh\<lparr>userInput := ascii ''reduce onboarding drop-off''\<rparr>) \<noteq> []
      \<and> phase (fresh\<lparr>userInput := ascii ''reduce onboarding drop-off''\<rparr>) = TOPIC_SETTING"
    and hyp': "trim (userInput discussing) \<noteq> [] \<and> apiKey discussing \<noteq> []"
    and hyp'': "trim (userInput simple_ready) \<noteq> [] \<and> apiKey simple_ready \<noteq> []"
    by (simp_all add: fresh_fields discussing_fields simple_ready_fields trim_examples)
  from hyp hyp' hyp''
    one_request_per_turn [of "fresh\<lparr>userInput := ascii ''reduce onboarding drop-off''\<rparr>"
      example_engine "Rejected []" simple_ready]
    one_request_per_turn [of discussing example_engine "Rejected []" simple_ready]
  show ?thesis
    by (simp add: fresh_fields simple_ready_fields trim_examples)
qed

text \<open>
  C3 as stated fails: the turn of the scenario, which takes a fresh session from
  \<open>TOPIC_SETTING\<close> to \<open>HTF_DISCUSSION\<close>, sends one request, not two.
\<close>

theorem topic_turn_sends_one_request:
  "phase (fresh\<lparr>userInput := ascii ''reduce onboarding drop-off''\<rparr>) = TOPIC_SETTING
   \<and> phase (turn example_engine
        (Response True (Parsed (completion_body (ascii ''Which step loses users?''))))
        (fresh\<lparr>userInput := ascii ''reduce onboarding drop-off''\<rparr>)) = HTF_DISCUSSION
   \<and> length (requests (fresh\<lparr>userInput := ascii ''reduce onboarding drop-off''\<rparr>)) = 0
   \<and> length (requests (turn example_engine
        (Response True (Parsed (completion_body (ascii ''Which step loses users?''))))
        (fresh\<lparr>userInput := ascii ''reduce onboarding drop-off''\<rparr>))) = 1"
  by (simp add: fresh_fields trim_examples turn_eq handleSend_fields handleSend_resume_fields)

section \<open>The topic-setting phase\<close>

text \<open>
  C6. In every state of the phase variant that a sequence of events leads to from a
  freshly loaded page (a state between two events), if the phase is \<open>TOPIC_SETTING\<close>
  then the topic is the empty string and the history is empty (so it holds no assistant
  message); no request has been sent and none is pending.
\<close>

theorem topic_setting_state:
  "phase (run eng (init k m w) es) = TOPIC_SETTING \<longrightarrow>
     topic (run eng (init k m w) es) = []
     \<and> history (run eng (init k m w) es) = []
     \<and> requests (run eng (init k m w) es) = []
     \<and> inflight (run eng (init k m w) es) = 0"
  using run_unopened [OF init_unopened, of eng k m w es] by (simp add: unopened_def)

theorem topic_setting_state_witness:
  "phase (run example_engine (init None None True) [TypeInput (ascii ''first idea''), Send])
     = TOPIC_SETTING
   \<and> topic (run example_engine (init None None True) [TypeInput (ascii ''first idea''), Send])
     = []
   \<and> history (run example_engine (init None None True) [TypeInput (ascii ''first idea''), Send])
     = []"
  using topic_setting_state [of example_engine None None True
      "[TypeInput (ascii ''first idea''), Send]"] keyless_attempt_phase
  by blast

section \<open>The transition to the discussion\<close>

text \<open>
  C5, as the code has it. Along any sequence of events from a freshly loaded page the phase
  goes from \<open>TOPIC_SETTING\<close> to \<open>HTF_DISCUSSION\<close> at most once. While the phase is
  \<open>TOPIC_SETTING\<close> a step makes the transition exactly when it is a submission with a
  non-empty trimmed input and a key configured, so the transition is triggered by the
  first such submission; its trimmed input becomes the topic, and before it the topic is
  empty. Once the phase is no longer \<open>TOPIC_SETTING\<close> no sequence of events changes the
  phase or the topic.
\<close>

theorem topic_transition:
  "(case first_accepted eng (init k m w) es of
      None \<Rightarrow> phase (run eng (init k m w) es) = TOPIC_SETTING
              \<and> topic (run eng (init k m w) es) = []
    | Some t \<Rightarrow> phase (run eng (init k m w) es) = HTF_DISCUSSION
                \<and> topic (run eng (init k m w) es) = t)
   \<and> transitions eng (init k m w) es \<le> 1
   \<and> (phase a = TOPIC_SETTING \<longrightarrow>
        (phase (step eng a e) = HTF_DISCUSSION
           \<longleftrightarrow> e = Send \<and> trim (userInput a) \<noteq> [] \<and> apiKey a \<noteq> [])
        \<and> (phase (step eng a e) = HTF_DISCUSSION \<longrightarrow> topic (step eng a e) = trim (userInput a))
        \<and> (phase (step eng a e) \<noteq> HTF_DISCUSSION \<longrightarrow>
             phase (step eng a e) = TOPIC_SETTING \<and> topic (step eng a e) = topic a))
   \<and> (phase a \<noteq> TOPIC_SETTING \<longrightarrow>
        phase (run eng a es) = phase a \<and> topic (run eng a es) = topic a)"
proof -
  have "case first_accepted eng (init k m w) es of
      None \<Rightarrow> phase (run eng (init k m w) es) = TOPIC_SETTING
              \<and> topic (run eng (init k m w) es) = []
    | Some t \<Rightarrow> phase (run eng (init k m w) es) = HTF_DISCUSSION
                \<and> topic (run eng (init k m w) es) = t"
    using run_first_accepted [of "init k m w" eng es]
    by (simp add: init_fields split: option.splits)
  moreover have "phase a = TOPIC_SETTING \<longrightarrow>
        (phase (step eng a e) = HTF_DISCUSSION
           \<longleftrightarrow> e = Send \<and> trim (userInput a) \<noteq> [] \<and> apiKey a \<noteq> [])
        \<and> (phase (step eng a e) = HTF_DISCUSSION \<longrightarrow> topic (step eng a e) = trim (userInput a))
        \<and> (phase (step eng a e) \<noteq> HTF_DISCUSSION \<longrightarrow>
             phase (step eng a e) = TOPIC_SETTING \<and> topic (step eng a e) = topic a)"
    using step_in_topic_setting [of a e eng] by (auto split: if_splits)
  ultimately show ?thesis
    using transitions_le_1 [of eng "init k m w" es] run_after_topic [of a eng es] by blast
qed

theorem topic_transition_witness:
  "first_accepted example_engine keyless late_key_session = Some (ascii ''second idea'')
   \<and> phase (run example_engine keyless late_key_session) = HTF_DISCUSSION
   \<and> topic (run example_engine keyless late_key_session) = ascii ''second idea''
   \<and> transitions example_engine keyless late_key_session = 1
   \<and> phase (step example_engine
         (fresh\<lparr>userInput := ascii ''reduce onboarding drop-off''\<rparr>) Send) = HTF_DISCUSSION
   \<and> topic (step example_engine
         (fresh\<lparr>userInput := ascii ''reduce onboarding drop-off''\<rparr>) Send)
       = ascii ''reduce onboarding drop-off''
   \<and> phase (step example_engine fresh Send) = TOPIC_SETTING
   \<and> topic (run example_engine discussing [Send, TypeInput (ascii ''second idea''), Send])
       = ascii ''reduce onboarding drop-off''"
proof -
  have hyp: "phase (fresh\<lparr>userInput := ascii ''reduce onboarding drop-off''\<rparr>) = TOPIC_SETTING
      \<and> trim (userInput (fresh\<lparr>userInput := ascii ''reduce onboarding drop-off''\<rparr>)) \<noteq> []
      \<and> apiKey (fresh\<lparr>userInput := ascii ''reduce onboarding drop-off''\<rparr>) \<noteq> []"
    and hyp': "phase fresh = TOPIC_SETTING \<and> trim (userInput fresh) = []"
    and hyp'': "phase discussing \<noteq> TOPIC_SETTING"
    by (simp_all add: fresh_fields discussing_fields trim_examples)
  from hyp hyp' hyp''
    topic_transition [of example_engine None None True late_key_session
      "fresh\<lparr>userInput := ascii ''reduce onboarding drop-off''\<rparr>" Send]
    topic_transition [of example_engine None None True late_key_session fresh Send]
    topic_transition [of example_engine None None True
      "[Send, TypeInput (ascii ''second idea''), Send]" discussing Send]
  show ?thesis
    by (simp add: late_key_session_facts keyless_def [symmetric] discussing_fields
        trim_examples)
qed

text \<open>
  C5 as stated fails: in a session loaded without a key the first non-empty submission
  only raises the alert and the phase stays \<open>TOPIC_SETTING\<close>; after a key has been saved
  the second submission makes the transition, and its text, not that of the first, is the
  topic.
\<close>

theorem first_submission_without_key:
  "trim (ascii ''first idea'') \<noteq> []
   \<and> phase (run example_engine keyless [TypeInput (ascii ''first idea''), Send]) = TOPIC_SETTING
   \<and> topic (run example_engine keyless [TypeInput (ascii ''first idea''), Send]) = []
   \<and> alerts (run example_engine keyless [TypeInput (ascii ''first idea''), Send])
       = [missing_key_alert]
   \<and> phase (run example_engine keyless late_key_session) = HTF_DISCUSSION
   \<and> topic (run example_engine keyless late_key_session) = ascii ''second idea''"
  by (simp add: late_key_session_def keyless_def init_def Let_def renderMessage_def
      trim_examples saveApiKey_def alert_def handleSend_fields handleSend_resume_fields)

section \<open>Roles in the history\<close>

text \<open>
  C10. In both variants every message of the history of every state reached from a freshly
  loaded page has role user or assistant, never system, and every step keeps it so. What
  is shown with the system role stays on the page: when a completion fails the history is
  untouched and the error is appended to the chat container only; in the turn that sets
  the topic the announcement and the notice are appended to the chat container while the
  history receives the generated user message; the opening notice of \<open>init\<close> is
  rendered into an empty history.
\<close>

theorem history_roles:
  "no_system (history (run eng (init k m w) es))
   \<and> no_system (history (simple_run eng (simple_init k m w) es))
   \<and> (no_system (history a) \<longrightarrow> no_system (history (step eng a e)))
   \<and> (no_system (history b) \<longrightarrow> no_system (history (simple_step eng b e)))
   \<and> (fetchGroqCompletion_receive eng r = Inl err \<longrightarrow>
        history (handleSend_resume eng r a) = history a
        \<and> chatContainer (handleSend_resume eng r a) = chatContainer a @ [(System, error_text err)]
        \<and> history (simple_handleSend_resume eng r b) = history b
        \<and> chatContainer (simple_handleSend_resume eng r b)
            = chatContainer b @ [(System, error_text err)])
   \<and> (phase a = TOPIC_SETTING \<and> trim (userInput a) \<noteq> [] \<and> apiKey a \<noteq> [] \<longrightarrow>
        chatContainer (handleSend a) =
          chatContainer a @
            [(User, JStr (topic_label @ trim (userInput a))),
             (System, JStr (topic_notice_head @ trim (userInput a) @ topic_notice_tail))]
        \<and> history (handleSend a) =
          history a @
            [\<lparr>role = User,
              content = JStr (consultation_head @ trim (userInput a) @ consultation_tail)\<rparr>])
   \<and> history (init k m w) = []
   \<and> chatContainer (init k m w) = [(System, JStr opening_notice)]"
proof -
  have "no_system (history (run eng (init k m w) es))"
    by (rule run_no_system) (simp add: init_fields)
  moreover have "no_system (history (simple_run eng (simple_init k m w) es))"
    by (rule simple_run_no_system) (simp add: simple_init_fields)
  ultimately show ?thesis
    by (simp add: step_no_system simple_step_no_system handleSend_fields
        handleSend_resume_fields simple_handleSend_resume_fields init_fields)
      (simp add: init_def Let_def renderMessage_def)
qed

theorem history_roles_witness:
  "no_system (history (step example_engine discussing Send))
   \<and> no_system (history (simple_step example_engine simple_ready Send))
   \<and> history (handleSend_resume example_engine (Response False (Parsed invalid_api_key_body))
        discussing) = history discussing
   \<and> chatContainer (handleSend_resume example_engine
        (Response False (Parsed invalid_api_key_body)) discussing)
       = chatContainer discussing @ [(System, error_text (Error (ascii ''invalid_api_key'')))]
   \<and> history (handleSend (fresh\<lparr>userInput := ascii ''reduce onboarding drop-off''\<rparr>))
       = [\<lparr>role = User,
           content = JStr (consultation_head @ ascii ''reduce onboarding drop-off''
                           @ consultation_tail)\<rparr>]"
proof -
  have hyp: "no_system (history discussing) \<and> no_system (history simple_ready)
      \<and> fetchGroqCompletion_receive example_engine
           (Response False (Parsed invalid_api_key_body)) = Inl (Error (ascii ''invalid_api_key''))"
    and hyp': "phase (fresh\<lparr>userInput := ascii ''reduce onboarding drop-off''\<rparr>) = TOPIC_SETTING
      \<and> trim (userInput (fresh\<lparr>userInput := ascii ''reduce onboarding drop-off''\<rparr>)) \<noteq> []
      \<and> apiKey (fresh\<lparr>userInput := ascii ''reduce onboarding drop-off''\<rparr>) \<noteq> []"
    by (simp_all add: discussing_fields simple_ready_fields fresh_fields trim_examples
        receive_examples)
  from hyp hyp'
    history_roles [of example_engine None None True "[]" discussing Send simple_ready
      "Response False (Parsed invalid_api_key_body)" "Error (ascii ''invalid_api_key'')"]
    history_roles [of example_engine None None True "[]"
      "fresh\<lparr>userInput := ascii ''reduce onboarding drop-off''\<rparr>" Send simple_ready
      "Response False (Parsed invalid_api_key_body)" "Error (ascii ''invalid_api_key'')"]
  show ?thesis
    by (simp add: fresh_fields trim_examples)
qed

section \<open>The payload of a request\<close>

text \<open>
  C2. In both variants the messages of a request are one system-role message, synthesized
  when the request is built, followed by the entire history; a step that sends a request
  sends the one built from the state it leaves behind. In every state reached from a
  freshly loaded page, every request sent so far has exactly one system-role message,
  which is its first, and the history holds no system-role message: the synthesized one
  is never stored.
\<close>

theorem payload_is_system_then_history:
  "req_messages (request a) = \<lparr>role = System, content = JStr (systemContent a)\<rparr> # history a
   \<and> req_messages (simple_request b)
       = \<lparr>role = System, content = JStr simple_system_prompt\<rparr> # history b
   \<and> (requests (step eng a e) = requests a
        \<or> requests (step eng a e) = requests a @ [request (step eng a e)])
   \<and> (requests (simple_step eng c e) = requests c
        \<or> requests (simple_step eng c e) = requests c @ [simple_request (simple_step eng c e)])
   \<and> list_all (\<lambda>q. system_count (req_messages q) = 1
                   \<and> role (hd (req_messages q)) = System
                   \<and> no_system (tl (req_messages q)))
        (requests (run eng (init k m w) es))
   \<and> list_all (\<lambda>q. system_count (req_messages q) = 1
                   \<and> role (hd (req_messages q)) = System
                   \<and> no_system (tl (req_messages q)))
        (requests (simple_run eng (simple_init k m w) es))
   \<and> no_system (history (run eng (init k m w) es))
   \<and> no_system (history (simple_run eng (simple_init k m w) es))"
proof -
  have "list_all (\<lambda>q. system_count (req_messages q) = 1
                   \<and> role (hd (req_messages q)) = System
                   \<and> no_system (tl (req_messages q)))
        (requests (run eng (init k m w) es))"
    by (rule run_requests_all) (simp_all add: request_one_system init_fields)
  moreover have "list_all (\<lambda>q. system_count (req_messages q) = 1
                   \<and> role (hd (req_messages q)) = System
                   \<and> no_system (tl (req_messages q)))
        (requests (simple_run eng (simple_init k m w) es))"
    by (rule simple_run_requests_all) (simp_all add: simple_request_one_system simple_init_fields)
  moreover have "no_system (history (run eng (init k m w) es))"
    by (rule run_no_system) (simp add: init_fields)
  moreover have "no_system (history (simple_run eng (simple_init k m w) es))"
    by (rule simple_run_no_system) (simp add: simple_init_fields)
  ultimately show ?thesis
    using step_requests_cases [of eng a e] simple_step_requests_cases [of eng c e]
    by (simp add: request_def simple_request_def)
qed

theorem payload_is_system_then_history_witness:
  "req_messages (request discussing) =
     [\<lparr>role = System, content = JStr (systemContent discussing)\<rparr>,
      \<lparr>role = User,
       content = JStr (consultation_head @ ascii ''reduce onboarding drop-off''
                       @ consultation_tail)\<rparr>,
      \<lparr>role = Assistant, content = JStr (ascii ''Which step loses users?'')\<rparr>]
   \<and> requests (step example_engine discussing Send)
       = requests discussing @ [request (step example_engine discussing Send)]"
  using payload_is_system_then_history
    [of discussing simple_ready example_engine Send simple_ready None None True "[]"]
  by (simp add: discussing_fields handleSend_fields trim_examples)

section \<open>The parameters of a request\<close>

text \<open>
  C7. In the phase variant the text of the system message is the fixed instruction with
  \<open>HTF_GRAMMAR\<close> embedded unchanged and the current topic interpolated. In both variants
  the request carries the selected model id and the temperature 0.7; the cap
  \<open>max_tokens\<close> is 2048 in the phase variant and 1024, strictly less, in the simple one.
  This holds for every request sent along any sequence of events from a freshly loaded
  page.
\<close>

theorem request_contents:
  "system_text (request a)
     = systemContent_head @ HTF_GRAMMAR @ systemContent_mid @ topic a @ systemContent_tail
   \<and> sublist HTF_GRAMMAR (system_text (request a))
   \<and> sublist (topic a) (system_text (request a))
   \<and> req_model (request a) = model a
   \<and> req_temperature (request a) = 0.7
   \<and> req_max_tokens (request a) = 2048
   \<and> req_model (simple_request b) = model b
   \<and> req_temperature (simple_request b) = 0.7
   \<and> req_max_tokens (simple_request b) = 1024
   \<and> req_max_tokens (simple_request b) < req_max_tokens (request a)
   \<and> (requests (step eng a e) = requests a
        \<or> requests (step eng a e) = requests a @ [request (step eng a e)])
   \<and> (requests (simple_step eng c e) = requests c
        \<or> requests (simple_step eng c e) = requests c @ [simple_request (simple_step eng c e)])
   \<and> list_all (\<lambda>q. req_url q = GROQ_API_URL
                   \<and> req_temperature q = 0.7 \<and> req_max_tokens q = 2048
                   \<and> sublist HTF_GRAMMAR (system_text q))
        (requests (run eng (init k m w) es))
   \<and> list_all (\<lambda>q. req_url q = GROQ_API_URL
                   \<and> req_temperature q = 0.7 \<and> req_max_tokens q = 1024
                   \<and> system_text q = simple_system_prompt)
        (requests (simple_run eng (simple_init k m w) es))"
proof -
  have "list_all (\<lambda>q. req_url q = GROQ_API_URL
                   \<and> req_temperature q = 0.7 \<and> req_max_tokens q = 2048
                   \<and> sublist HTF_GRAMMAR (system_text q))
        (requests (run eng (init k m w) es))"
    by (rule run_requests_all) (simp_all add: request_parameters init_fields)
  moreover have "list_all (\<lambda>q. req_url q = GROQ_API_URL
                   \<and> req_temperature q = 0.7 \<and> req_max_tokens q = 1024
                   \<and> system_text q = simple_system_prompt)
        (requests (simple_run eng (simple_init k m w) es))"
    by (rule simple_run_requests_all)
      (simp_all add: simple_request_parameters simple_init_fields)
  moreover have "system_text (request a) = systemContent a"
    by (simp add: request_def system_text_def)
  ultimately show ?thesis
    using step_requests_cases [of eng a e] simple_step_requests_cases [of eng c e]
      systemContent_embeds [of a]
    by (simp add: request_def simple_request_def) (simp add: systemContent_def)
qed

theorem request_contents_witness:
  "requests (handleSend (fresh\<lparr>userInput := ascii ''reduce onboarding drop-off''\<rparr>))
     = [request (handleSend (fresh\<lparr>userInput := ascii ''reduce onboarding drop-off''\<rparr>))]
   \<and> system_text (request (handleSend (fresh\<lparr>userInput := ascii ''reduce onboarding drop-off''\<rparr>)))
     = systemContent_head @ HTF_GRAMMAR @ systemContent_mid
       @ ascii ''reduce onboarding drop-off'' @ systemContent_tail
   \<and> req_model (request (handleSend (fresh\<lparr>userInput := ascii ''reduce onboarding drop-off''\<rparr>)))
     = ascii ''llama-3.3-70b-versatile''
   \<and> req_max_tokens (request (handleSend (fresh\<lparr>userInput := ascii ''reduce onboarding drop-off''\<rparr>)))
     = 2048"
  using request_contents
    [of "handleSend (fresh\<lparr>userInput := ascii ''reduce onboarding drop-off''\<rparr>)"
        simple_ready example_engine Send simple_ready None None True "[]"]
  by (simp add: handleSend_fields fresh_fields trim_examples)

section \<open>Narration\<close>

text \<open>
  C8. For every string passed to \<open>speakText\<close> the narrated text is the string without the
  characters \<open>*\<close>, \<open>#\<close> and \<open>`\<close>; in the phase variant, and only there, the
  \<open><think>\<close> blocks are removed before that: when the first opening tag of a text is
  followed by a closing tag, the text from that opening tag to the nearest closing tag,
  tags and contents included, is dropped and the rest behind it is treated the same way,
  while a text without an opening tag, or with no closing tag behind the first opening
  tag, is left as it is. The language tag of the utterance
  is \<open>ja-JP\<close> when the narrated text has a code unit in U+3040 to U+309F or U+30A0 to
  U+30FF, and \<open>en-US\<close> otherwise. The phase variant narrates
  \<open><think>secret</think>Hello\<close> as \<open>Hello\<close>, the simple variant leaves the block in.
  \<open>speakText\<close> changes nothing but the speech queue, so neither the history nor what
  the chat container shows is altered.
\<close>

theorem narration_text:
  "simple_cleanText s = filter (\<lambda>c. c \<noteq> 0x2A \<and> c \<noteq> 0x23 \<and> c \<noteq> 0x60) s
   \<and> cleanText s = filter (\<lambda>c. c \<noteq> 0x2A \<and> c \<noteq> 0x23 \<and> c \<noteq> 0x60) (replace_think s)
   \<and> (\<not> sublist think_open (pre @ butlast think_open)
        \<and> \<not> sublist think_close (inner @ butlast think_close) \<longrightarrow>
        replace_think (pre @ think_open @ inner @ think_close @ post) = pre @ replace_think post)
   \<and> (\<not> sublist think_open s \<longrightarrow> replace_think s = s)
   \<and> (\<not> sublist think_open (pre @ butlast think_open) \<and> \<not> sublist think_close post \<longrightarrow>
        replace_think (pre @ think_open @ post) = pre @ think_open @ post)
   \<and> speakText eng (JStr s) a =
       (None, a\<lparr>speechQueue := [\<lparr>utterance_text = cleanText s,
                                    utterance_lang = lang_of (cleanText s)\<rparr>]\<rparr>)
   \<and> simple_speakText eng (JStr s) b =
       (None, b\<lparr>speechQueue := [\<lparr>utterance_text = simple_cleanText s,
                                    utterance_lang = lang_of (simple_cleanText s)\<rparr>]\<rparr>)
   \<and> lang_of t =
       (if \<exists>c\<in>set t. (0x3040 \<le> c \<and> c \<le> 0x309F) \<or> (0x30A0 \<le> c \<and> c \<le> 0x30FF)
        then ascii ''ja-JP'' else ascii ''en-US'')
   \<and> cleanText (ascii ''<think>secret</think>Hello'') = ascii ''Hello''
   \<and> simple_cleanText (ascii ''<think>secret</think>Hello'')
       = ascii ''<think>secret</think>Hello''
   \<and> snd (speakText eng v a) = a\<lparr>speechQueue := speechQueue (snd (speakText eng v a))\<rparr>
   \<and> snd (simple_speakText eng v b)
       = b\<lparr>speechQueue := speechQueue (snd (simple_speakText eng v b))\<rparr>"
proof -
  have "lang_of t =
       (if \<exists>c\<in>set t. (0x3040 \<le> c \<and> c \<le> 0x309F) \<or> (0x30A0 \<le> c \<and> c \<le> 0x30FF)
        then ascii ''ja-JP'' else ascii ''en-US'')"
    by (simp add: lang_of_def hasJapanese_def isKana_def list_ex_iff)
  moreover have "simple_cleanText s = filter (\<lambda>c. c \<noteq> 0x2A \<and> c \<noteq> 0x23 \<and> c \<noteq> 0x60) s"
    and "cleanText s = filter (\<lambda>c. c \<noteq> 0x2A \<and> c \<noteq> 0x23 \<and> c \<noteq> 0x60) (replace_think s)"
    by (simp_all add: simple_cleanText_def cleanText_def replace_marks_def isMarkdownMark_def)
  moreover have "\<not> sublist think_open (pre @ butlast think_open)
        \<and> \<not> sublist think_close (inner @ butlast think_close) \<longrightarrow>
        replace_think (pre @ think_open @ inner @ think_close @ post) = pre @ replace_think post"
    by (simp add: replace_think_block)
  moreover have "\<not> sublist think_open s \<longrightarrow> replace_think s = s"
    by (simp add: replace_think_no_open)
  moreover have "\<not> sublist think_open (pre @ butlast think_open)
        \<and> \<not> sublist think_close post \<longrightarrow>
        replace_think (pre @ think_open @ post) = pre @ think_open @ post"
    by (simp add: replace_think_unclosed)
  moreover note speakText_JStr(1) [of eng s a] speakText_JStr(2) [of eng s b]
    cleanText_example speakText_only_queue(1) [of eng v a]
    speakText_only_queue(2) [of eng v b]
  ultimately show ?thesis by blast
qed

theorem narration_text_witness:
  "replace_think (think_open @ ascii ''secret'' @ think_close @ ascii ''Hello'') = ascii ''Hello''
   \<and> replace_think (think_open @ ascii ''Hello'') = think_open @ ascii ''Hello''
   \<and> lang_of [0x3053, 0x3093] = ascii ''ja-JP''
   \<and> lang_of (ascii ''Hello'') = ascii ''en-US''"
proof -
  from no_tag_examples
    narration_text [of "ascii ''Hello''" "[]" "ascii ''secret''" "ascii ''Hello''"
      example_engine fresh simple_ready "[0x3053, 0x3093]" JNull]
    narration_text [of "ascii ''Hello''" "[]" "ascii ''secret''" "ascii ''Hello''"
      example_engine fresh simple_ready "ascii ''Hello''" JNull]
  show ?thesis by (simp add: ascii_def)
qed

end
